theory Spec2Isabelle
  imports Complex_Main
begin

section \<open>Conventions\<close>

text \<open>
  JavaScript strings are modelled as \<^typ>\<open>string\<close>; a literal of the source that is not
  ASCII is given by its UTF-8 bytes, with the meaning of the text in the comment of the
  constant. Times are epoch milliseconds (\<^typ>\<open>int\<close>), as \<open>Date.now()\<close> and
  \<open>Date.getTime()\<close> return them. \<open>null\<close>/\<open>undefined\<close> is \<^const>\<open>None\<close>. A thrown
  exception is the \<^const>\<open>Inl\<close> side of a sum, carrying the error text.
  Monitor statuses are the numbers of the source: DOWN = 0, UP = 1, PENDING = 2.
\<close>

type_synonym exn = string

definition DOWN :: int where "DOWN = 0"
definition UP :: int where "UP = 1"
definition PENDING :: int where "PENDING = 2"

section \<open>JavaScript number and string primitives\<close>

text \<open>
  \<open>Number.prototype.toString(radix)\<close> on a non-negative integer, \<open>String.prototype.padStart\<close>
  with a one-character filler, and \<open>parseInt(string, radix)\<close> (\<^const>\<open>None\<close> is \<open>NaN\<close>, and
  an absent radix is \<^const>\<open>None\<close>).
\<close>

definition digit_char :: "nat \<Rightarrow> char" where
  "digit_char d = (if d < 10 then char_of (48 + d) else char_of (87 + d))"

function toStringRadix :: "nat \<Rightarrow> nat \<Rightarrow> string" where
  "toStringRadix b n =
     (if b < 2 \<or> n < b then [digit_char n]
      else toStringRadix b (n div b) @ [digit_char (n mod b)])"
  by pat_completeness auto
termination
  by (relation "measure (\<lambda>(b, n). n)") auto

declare toStringRadix.simps [simp del]

definition padStart :: "nat \<Rightarrow> char \<Rightarrow> string \<Rightarrow> string" where
  "padStart k c s = replicate (k - length s) c @ s"

definition digit_val :: "char \<Rightarrow> nat option" where
  "digit_val c =
     (let n = (of_char c :: nat) in
      if 48 \<le> n \<and> n \<le> 57 then Some (n - 48)
      else if 97 \<le> n \<and> n \<le> 122 then Some (n - 87)
      else if 65 \<le> n \<and> n \<le> 90 then Some (n - 55)
      else None)"

fun parse_digits :: "nat \<Rightarrow> string \<Rightarrow> nat option \<Rightarrow> nat option" where
  "parse_digits b [] acc = acc"
| "parse_digits b (c # cs) acc =
     (case digit_val c of
        None \<Rightarrow> acc
      | Some d \<Rightarrow>
          if d < b then parse_digits b cs (Some ((case acc of None \<Rightarrow> 0 | Some a \<Rightarrow> a) * b + d))
          else acc)"

text \<open>ASCII white space, for \<open>parseInt\<close> and \<open>trimEnd\<close>.\<close>

definition is_space :: "char \<Rightarrow> bool" where
  "is_space c = (c = CHR '' '' \<or> c = CHR 0x09 \<or> c = CHR 0x0A \<or> c = CHR 0x0B \<or> c = CHR 0x0C \<or> c = CHR 0x0D)"

definition hex_prefixed :: "string \<Rightarrow> bool" where
  "hex_prefixed s = (take 2 s = ''0x'' \<or> take 2 s = ''0X'')"

definition parseInt :: "string \<Rightarrow> nat option \<Rightarrow> int option" where
  "parseInt str radix =
     (let s0 = dropWhile is_space str;
          neg = (take 1 s0 = ''-'');
          s1 = (if take 1 s0 = ''-'' \<or> take 1 s0 = ''+'' then drop 1 s0 else s0);
          hex = ((radix = None \<or> radix = Some 0 \<or> radix = Some 16) \<and> hex_prefixed s1);
          r = (if hex then 16 else case radix of None \<Rightarrow> 10 | Some n \<Rightarrow> if n = 0 then 10 else n);
          s2 = (if hex then drop 2 s1 else s1)
      in if r < 2 \<or> 36 < r then None
         else case parse_digits r s2 None of
                None \<Rightarrow> None
              | Some v \<Rightarrow> Some (if neg then - int v else int v))"

section \<open>Compact message (utils/compact-message)\<close>

text \<open>The literal of \<open>generateCompactMessage\<close> for PENDING rows: "waiting" (3 CJK characters).\<close>

definition MSG_PENDING :: string where
  "MSG_PENDING = [CHR 0xE7, CHR 0xAD, CHR 0x89, CHR 0xE5, CHR 0xBE, CHR 0x85, CHR 0xE4, CHR 0xB8, CHR 0xAD]"

text \<open>
  \<open>generateCompactMessage(status, originalMessage, ping)\<close>: the three tests of the source
  in their order. The function receives neither the monitor type nor any option.
\<close>

definition generateCompactMessage :: "int \<Rightarrow> string \<Rightarrow> int option \<Rightarrow> string option" where
  "generateCompactMessage status originalMessage ping =
     (if status = UP then None
      else if status = DOWN then Some originalMessage
      else if status = PENDING then Some MSG_PENDING
      else Some originalMessage)"

section \<open>Status recorder (recordMonitorStatus)\<close>

record MonitorStatus =
  row_id :: string
  row_monitorId :: string
  row_status :: int
  row_message :: "string option"
  row_ping :: "int option"
  row_details :: "string option"
  row_timestamp :: int

record MonitorLast =
  lastCheckAt :: "int option"
  lastStatus :: "int option"
  lastMessage :: "string option"
  lastPing :: "int option"

text \<open>
  The two tables the recorder writes: the history in insertion order, and the last-known
  fields of every monitor.
\<close>

record database =
  statusHistory :: "MonitorStatus list"
  monitors :: "string \<rightharpoonup> MonitorLast"

record RecordStatusParams =
  p_monitorId :: string
  p_status :: int
  p_message :: string
  p_ping :: "int option"
  p_details :: "string option"
  p_monitorType :: "string option"

text \<open>
  What the recorder cannot decide itself: the identifier the generator returns (or the
  error it throws), the clock, and whether each of the two awaited writes is rejected by the
  database.
\<close>

record recorder_io =
  io_newId :: "exn + string"
  io_now :: int
  io_createFails :: bool
  io_updateFails :: bool

definition ERR_CREATE :: exn where "ERR_CREATE = ''monitorStatus.create rejected''"
definition ERR_UPDATE :: exn where "ERR_UPDATE = ''monitor.update rejected''"

text \<open>
  \<open>recordMonitorStatus(params)\<close> awaits \<open>prisma.monitorStatus.create\<close> and then
  \<open>prisma.monitor.update\<close>: two separate writes, with no transaction around them, inside
  one \<open>try\<close> whose handler logs and rethrows. Each write is a step of its own here.
  \<open>details\<close> arrives already serialised.
\<close>

text \<open>The first write, with the identifier and the compact message computed before it.\<close>

definition createStatus ::
  "recorder_io \<Rightarrow> RecordStatusParams \<Rightarrow> database \<Rightarrow> (exn + MonitorStatus) \<times> database" where
  "createStatus io params db =
     (case io_newId io of
        Inl e \<Rightarrow> (Inl e, db)
      | Inr ultraCompactId \<Rightarrow>
          let compactMessage = generateCompactMessage (p_status params) (p_message params) (p_ping params) in
          if io_createFails io then (Inl ERR_CREATE, db)
          else
            let record = \<lparr> row_id = ultraCompactId,
                             row_monitorId = p_monitorId params,
                             row_status = p_status params,
                             row_message = compactMessage,
                             row_ping = p_ping params,
                             row_details = p_details params,
                             row_timestamp = io_now io \<rparr>
            in (Inr record, db\<lparr> statusHistory := statusHistory db @ [record] \<rparr>))"

text \<open>
  The second write. \<open>monitor.update\<close> rejects when the record does not exist. A field
  whose value is \<open>undefined\<close> is left as it is by Prisma, so an absent \<open>ping\<close> keeps the
  previous \<open>lastPing\<close>.
\<close>

definition updateMonitor ::
  "recorder_io \<Rightarrow> RecordStatusParams \<Rightarrow> database \<Rightarrow> (exn + unit) \<times> database" where
  "updateMonitor io params db =
     (case monitors db (p_monitorId params) of
        None \<Rightarrow> (Inl ERR_UPDATE, db)
      | Some old \<Rightarrow>
          if io_updateFails io then (Inl ERR_UPDATE, db)
          else (Inr (),
                db\<lparr> monitors := (monitors db)(p_monitorId params \<mapsto>
                   \<lparr> lastCheckAt = Some (io_now io),
                     lastStatus = Some (p_status params),
                     lastMessage = Some (p_message params),
                     lastPing = (case p_ping params of None \<Rightarrow> lastPing old | Some p \<Rightarrow> Some p) \<rparr>) \<rparr>))"

text \<open>
  A call in the running process: while it waits between its two writes, other tasks
  (other calls of the recorder among them) may write; \<open>between\<close> is what they do to the
  database in that time. The database reached when the promise settles is returned beside
  the result.
\<close>

definition recordMonitorStatusAmid ::
  "recorder_io \<Rightarrow> RecordStatusParams \<Rightarrow> (database \<Rightarrow> database) \<Rightarrow> database
     \<Rightarrow> (exn + MonitorStatus) \<times> database" where
  "recordMonitorStatusAmid io params between db =
     (case createStatus io params db of
        (Inl e, db1) \<Rightarrow> (Inl e, db1)
      | (Inr record, db1) \<Rightarrow>
          (case updateMonitor io params (between db1) of
             (Inl e, db2) \<Rightarrow> (Inl e, db2)
           | (Inr u, db2) \<Rightarrow> (Inr record, db2)))"

text \<open>The call running alone: nothing else writes between its two writes.\<close>

definition recordMonitorStatus ::
  "recorder_io \<Rightarrow> RecordStatusParams \<Rightarrow> database \<Rightarrow> (exn + MonitorStatus) \<times> database" where
  "recordMonitorStatus io params db = recordMonitorStatusAmid io params (\<lambda>d. d) db"

text \<open>
  The most recent history row of a monitor: the greatest timestamp (among rows with equal
  timestamps the later insertion is taken; the properties below do not rest on that).
\<close>

fun newer :: "MonitorStatus option \<Rightarrow> MonitorStatus \<Rightarrow> MonitorStatus option" where
  "newer None r = Some r"
| "newer (Some best) r = (if row_timestamp best \<le> row_timestamp r then Some r else Some best)"

definition mostRecentRow :: "database \<Rightarrow> string \<Rightarrow> MonitorStatus option" where
  "mostRecentRow db mid = foldl newer None (filter (\<lambda>r. row_monitorId r = mid) (statusHistory db))"

definition lastStatusOf :: "database \<Rightarrow> string \<Rightarrow> int option" where
  "lastStatusOf db mid = (case monitors db mid of None \<Rightarrow> None | Some m \<Rightarrow> lastStatus m)"

text \<open>
  The compact message as the specification words it, for comparison with the code: null
  exactly for an UP row of a monitor that is not of type push, the literal for PENDING,
  and otherwise the original message without its trailing white space (ASCII white space;
  the messages compared below contain no other).
\<close>

definition trimEnd :: "string \<Rightarrow> string" where
  "trimEnd s = rev (dropWhile is_space (rev s))"

definition spec_compactMessage :: "int \<Rightarrow> string \<Rightarrow> string option \<Rightarrow> string option" where
  "spec_compactMessage status originalMessage monitorType =
     (if status = UP \<and> monitorType \<noteq> Some ''push'' then None
      else if status = PENDING then Some MSG_PENDING
      else Some (trimEnd originalMessage))"

section \<open>Compact identifiers (utils/ultra-compact-id)\<close>

definition BASE_TIME :: int where "BASE_TIME = 1704067200000"
definition THREE_YEARS_MS :: int where "THREE_YEARS_MS = 3 * 365 * 24 * 60 * 60 * 1000"
definition ERR_RANGE :: exn where "ERR_RANGE = ''time outside the 3-year range, BASE_TIME needs adjusting''"

text \<open>
  The generators. \<open>now\<close> is \<open>Date.now()\<close> and \<open>rnd\<close> the value \<open>Math.random()\<close> returns.
  Numbers are the exact reals: the divisions of the source are not rounded to doubles.
\<close>

definition generateUltraCompactId6 :: "int \<Rightarrow> real \<Rightarrow> exn + string" where
  "generateUltraCompactId6 now rnd =
     (let relativeTime = now - BASE_TIME in
      if relativeTime < 0 \<or> relativeTime > THREE_YEARS_MS then Inl ERR_RANGE
      else
        let timeUnit = \<lfloor>real_of_int relativeTime / (real_of_int THREE_YEARS_MS / (36 * 36 * 36))\<rfloor>;
            timeCode = padStart 3 (CHR ''0'') (toStringRadix 36 (nat timeUnit));
            random = padStart 2 (CHR ''0'') (toStringRadix 36 (nat \<lfloor>rnd * 36 * 36\<rfloor>))
        in Inr (timeCode @ random))"

definition generateUltraCompactId7 :: "int \<Rightarrow> real \<Rightarrow> exn + string" where
  "generateUltraCompactId7 now rnd =
     (let relativeTime = now - BASE_TIME in
      if relativeTime < 0 \<or> relativeTime > THREE_YEARS_MS then Inl ERR_RANGE
      else
        let timeUnit = \<lfloor>real_of_int relativeTime / (real_of_int THREE_YEARS_MS / (36 * 36 * 36 * 36))\<rfloor>;
            timeCode = padStart 4 (CHR ''0'') (toStringRadix 36 (nat timeUnit));
            random = padStart 3 (CHR ''0'') (toStringRadix 36 (nat \<lfloor>rnd * 36 * 36 * 36\<rfloor>))
        in Inr (timeCode @ random))"

definition generateUltraCompactId8 :: "int \<Rightarrow> real \<Rightarrow> exn + string" where
  "generateUltraCompactId8 now rnd =
     (let relativeTime = now - BASE_TIME in
      if relativeTime < 0 \<or> relativeTime > THREE_YEARS_MS then Inl ERR_RANGE
      else
        let timeUnit = \<lfloor>real_of_int relativeTime / (real_of_int THREE_YEARS_MS / (36 * 36 * 36 * 36 * 36))\<rfloor>;
            timeCode = padStart 5 (CHR ''0'') (toStringRadix 36 (nat timeUnit));
            random = padStart 2 (CHR ''0'') (toStringRadix 36 (nat \<lfloor>rnd * 36 * 36\<rfloor>));
            checksum = toStringRadix 36
              ((nat timeUnit + of_char (random ! 0) + of_char (random ! 1)) mod 36)
        in Inr (timeCode @ random @ checksum))"

definition generateUltraCompactId9 :: "int \<Rightarrow> real \<Rightarrow> exn + string" where
  "generateUltraCompactId9 now rnd =
     (let relativeTime = now - BASE_TIME in
      if relativeTime < 0 \<or> relativeTime > THREE_YEARS_MS then Inl ERR_RANGE
      else
        let timeUnit = \<lfloor>real_of_int relativeTime / (real_of_int THREE_YEARS_MS / (36 * 36 * 36 * 36 * 36 * 36))\<rfloor>;
            timeCode = padStart 6 (CHR ''0'') (toStringRadix 36 (nat timeUnit));
            random = padStart 3 (CHR ''0'') (toStringRadix 36 (nat \<lfloor>rnd * 36 * 36 * 36\<rfloor>))
        in Inr (timeCode @ random))"

text \<open>The test \<open>/^[0-9a-z]{6,9}$/\<close>.\<close>

definition is_09az :: "char \<Rightarrow> bool" where
  "is_09az c = (let n = (of_char c :: nat) in (48 \<le> n \<and> n \<le> 57) \<or> (97 \<le> n \<and> n \<le> 122))"

definition isUltraCompactId :: "string \<Rightarrow> bool" where
  "isUltraCompactId ident = (6 \<le> length ident \<and> length ident \<le> 9 \<and> list_all is_09az ident)"

text \<open>
  A \<open>Date\<close> holds a whole number of milliseconds: \<open>new Date(v)\<close> drops the fraction of
  \<open>v\<close> (towards zero), and is the invalid date for \<open>NaN\<close>.
\<close>

datatype js_date = Date int | Invalid_Date

definition truncate_ms :: "real \<Rightarrow> int" where
  "truncate_ms v = (if 0 \<le> v then \<lfloor>v\<rfloor> else \<lceil>v\<rceil>)"

definition extractTimeFromUltraCompactId :: "string \<Rightarrow> js_date option" where
  "extractTimeFromUltraCompactId ident =
     (if \<not> isUltraCompactId ident then None
      else
        case (if length ident = 6 then Some (take 3 ident, 36 * 36 * 36)
              else if length ident = 7 then Some (take 4 ident, 36 * 36 * 36 * 36)
              else if length ident = 8 then Some (take 5 ident, 36 * 36 * 36 * 36 * 36)
              else if length ident = 9 then Some (take 6 ident, 36 * 36 * 36 * 36 * 36 * 36)
              else None) of
          None \<Rightarrow> None
        | Some (timeCode, timeUnits :: real) \<Rightarrow>
            (case parseInt timeCode (Some 36) of
               None \<Rightarrow> Some Invalid_Date
             | Some timeUnit \<Rightarrow>
                 let unitDuration = real_of_int THREE_YEARS_MS / timeUnits;
                     relativeTime = real_of_int timeUnit * unitDuration
                 in Some (Date (truncate_ms (real_of_int BASE_TIME + relativeTime)))))"

section \<open>Probe executors: ICMP and databases\<close>

text \<open>
  The result every executor returns (\<open>MonitorCheckResult\<close>/\<open>CheckResult\<close>): status, message,
  ping in milliseconds (a JavaScript number, or null) and optional details.
\<close>

record CheckResult =
  status :: int
  message :: string
  ping :: "real option"
  details :: "string option"

text \<open>A number in a condition is truthy unless it is absent or zero.\<close>

definition truthy :: "real option \<Rightarrow> bool" where
  "truthy v = (case v of None \<Rightarrow> False | Some x \<Rightarrow> x \<noteq> 0)"

text \<open>Decimal text of an integer, as a template literal renders it.\<close>

definition show_int :: "int \<Rightarrow> string" where
  "show_int i = (if i < 0 then ''-'' @ toStringRadix 10 (nat (- i)) else toStringRadix 10 (nat i))"

subsection \<open>ICMP (checkIcmp of checker-icmp, checkIcmpSingle of its variant with retries)\<close>

text \<open>
  The literals of the ICMP executor: "target unreachable", "response time(", "ms) exceeds
  threshold(", "Ping normal: ", "Ping normal", "Ping execution error: ".
\<close>

definition MSG_UNREACHABLE :: string where
  "MSG_UNREACHABLE = [CHR 0xE7, CHR 0x9B, CHR 0xAE, CHR 0xE6, CHR 0xA0, CHR 0x87, CHR 0xE4, CHR 0xB8, CHR 0x8D, CHR 0xE5, CHR 0x8F, CHR 0xAF, CHR 0xE8, CHR 0xBE, CHR 0xBE]"

definition MSG_RT_OPEN :: string where
  "MSG_RT_OPEN = [CHR 0xE5, CHR 0x93, CHR 0x8D, CHR 0xE5, CHR 0xBA, CHR 0x94, CHR 0xE6, CHR 0x97, CHR 0xB6, CHR 0xE9, CHR 0x97, CHR 0xB4] @ ''(''"

definition MSG_RT_MID :: string where
  "MSG_RT_MID = ''ms)'' @ [CHR 0xE8, CHR 0xB6, CHR 0x85, CHR 0xE8, CHR 0xBF, CHR 0x87, CHR 0xE9, CHR 0x98, CHR 0x88, CHR 0xE5, CHR 0x80, CHR 0xBC] @ ''(''"

definition MSG_PING_OK_COLON :: string where
  "MSG_PING_OK_COLON = ''Ping'' @ [CHR 0xE6, CHR 0xAD, CHR 0xA3, CHR 0xE5, CHR 0xB8, CHR 0xB8] @ '': ''"

definition MSG_PING_OK :: string where
  "MSG_PING_OK = ''Ping'' @ [CHR 0xE6, CHR 0xAD, CHR 0xA3, CHR 0xE5, CHR 0xB8, CHR 0xB8]"

definition MSG_PING_ERROR :: string where
  "MSG_PING_ERROR = ''Ping'' @ [CHR 0xE6, CHR 0x89, CHR 0xA7, CHR 0xE8, CHR 0xA1, CHR 0x8C, CHR 0xE9, CHR 0x94, CHR 0x99, CHR 0xE8, CHR 0xAF, CHR 0xAF] @ '': ''"

record MonitorIcmpConfig =
  icmp_hostname :: string
  packetCount :: "nat option"
  maxPacketLoss :: "real option"
  maxResponseTime :: "real option"

text \<open>
  What \<open>ping.promise.probe\<close> resolves to: whether the host answered, the response time
  (\<^const>\<open>None\<close> for \<open>'unknown'\<close>) and the measured packet loss in percent.
\<close>

record PingResponse =
  alive :: bool
  time :: "real option"
  packetLoss :: real

text \<open>
  The body shared by \<open>checkIcmp\<close> (checker-icmp) and \<open>checkIcmpSingle\<close>. The configuration
  is destructured into \<open>hostname\<close>, \<open>packetCount\<close> and \<open>maxResponseTime\<close> only. \<open>fmt\<close>
  renders a number inside a template literal; \<open>probe\<close> is the outcome of the ping, an
  exception on the left.
\<close>

definition checkIcmpSingle ::
  "(real \<Rightarrow> string) \<Rightarrow> MonitorIcmpConfig \<Rightarrow> exn + PingResponse \<Rightarrow> CheckResult" where
  "checkIcmpSingle fmt config probe =
     (case probe of
        Inl e \<Rightarrow> \<lparr> status = DOWN, message = MSG_PING_ERROR @ e, ping = None, details = None \<rparr>
      | Inr pingResult \<Rightarrow>
          let isAlive = alive pingResult;
              pingTime = time pingResult
          in if \<not> isAlive then
               \<lparr> status = DOWN, message = MSG_UNREACHABLE, ping = None, details = None \<rparr>
             else if truthy (maxResponseTime config) \<and> truthy pingTime
                     \<and> the pingTime > the (maxResponseTime config) then
               \<lparr> status = DOWN,
                 message = MSG_RT_OPEN @ fmt (the pingTime) @ MSG_RT_MID
                           @ fmt (the (maxResponseTime config)) @ ''ms)'',
                 ping = pingTime, details = None \<rparr>
             else
               \<lparr> status = UP,
                 message = (if truthy pingTime then MSG_PING_OK_COLON @ fmt (the pingTime) @ ''ms''
                            else MSG_PING_OK),
                 ping = pingTime, details = None \<rparr>)"

text \<open>
  The ICMP rule as the specification words it: UP exactly when the host replies, the
  measured loss is at most \<open>maxPacketLoss\<close> (0 percent when absent) and, when
  \<open>maxResponseTime\<close> is set, the response time is at most it.
\<close>

definition spec_icmp_up :: "MonitorIcmpConfig \<Rightarrow> PingResponse \<Rightarrow> bool" where
  "spec_icmp_up config r =
     (alive r
      \<and> packetLoss r \<le> (case maxPacketLoss config of None \<Rightarrow> 0 | Some l \<Rightarrow> l)
      \<and> (case maxResponseTime config of
            None \<Rightarrow> True
          | Some m \<Rightarrow> (case time r of None \<Rightarrow> True | Some t \<Rightarrow> t \<le> m)))"

subsection \<open>MySQL and Redis (checker-database)\<close>












text \<open>The configured port is a JSON number (integral here) or a string.\<close>

datatype port_value = PortNumber int | PortString string

definition port_text :: "port_value \<Rightarrow> string" where
  "port_text p = (case p of PortNumber i \<Rightarrow> show_int i | PortString s \<Rightarrow> s)"









section \<open>Retry wrapper (executeMonitorCheck of checker.ts)\<close>

text \<open>
  The literals: "retry succeeded (", "retry", " times later still failing: ",
  "check execution error: ", "unsupported monitor type: ".
\<close>

definition MSG_RETRY_OK :: string where
  "MSG_RETRY_OK = [CHR 0xE9, CHR 0x87, CHR 0x8D, CHR 0xE8, CHR 0xAF, CHR 0x95, CHR 0xE6, CHR 0x88, CHR 0x90, CHR 0xE5, CHR 0x8A, CHR 0x9F] @ '' (''"

definition MSG_RETRY :: string where
  "MSG_RETRY = [CHR 0xE9, CHR 0x87, CHR 0x8D, CHR 0xE8, CHR 0xAF, CHR 0x95]"

definition MSG_STILL_FAILING :: string where
  "MSG_STILL_FAILING = [CHR 0xE6, CHR 0xAC, CHR 0xA1, CHR 0xE5, CHR 0x90, CHR 0x8E, CHR 0xE4, CHR 0xBB, CHR 0x8D, CHR 0xE7, CHR 0x84, CHR 0xB6, CHR 0xE5, CHR 0xA4, CHR 0xB1, CHR 0xE8, CHR 0xB4, CHR 0xA5] @ '': ''"

definition MSG_CHECK_ERROR :: string where
  "MSG_CHECK_ERROR = [CHR 0xE6, CHR 0xA3, CHR 0x80, CHR 0xE6, CHR 0x9F, CHR 0xA5, CHR 0xE6, CHR 0x89, CHR 0xA7, CHR 0xE8, CHR 0xA1, CHR 0x8C, CHR 0xE5, CHR 0x87, CHR 0xBA, CHR 0xE9, CHR 0x94, CHR 0x99] @ '': ''"

definition MSG_TYPE_UNSUPPORTED :: string where
  "MSG_TYPE_UNSUPPORTED = [CHR 0xE4, CHR 0xB8, CHR 0x8D, CHR 0xE6, CHR 0x94, CHR 0xAF, CHR 0xE6, CHR 0x8C, CHR 0x81, CHR 0xE7, CHR 0x9A, CHR 0x84, CHR 0xE7, CHR 0x9B, CHR 0x91, CHR 0xE6, CHR 0x8E, CHR 0xA7, CHR 0xE7, CHR 0xB1, CHR 0xBB, CHR 0xE5, CHR 0x9E, CHR 0x8B] @ '': ''"

text \<open>The fields of a monitor the wrapper reads; the configuration is left abstract.\<close>

record 'c Monitor =
  m_type :: string
  m_config :: 'c
  retries :: int
  retryInterval :: int

text \<open>The types the \<open>switch\<close> dispatches on; every other type takes the \<open>default\<close> branch.\<close>

definition supported_types :: "string list" where
  "supported_types = [''http'', ''https-cert'', ''keyword'', ''port'', ''mysql'', ''redis'', ''push'', ''icmp'']"

text \<open>
  The executors (\<open>checkers\<close>, imported from a module outside the sources at hand) are a
  parameter: the outcome of the \<open>n\<close>-th executor call of a run, for a monitor type and a
  configuration, is a result or a thrown error.
\<close>

type_synonym 'c checkers = "string \<Rightarrow> 'c \<Rightarrow> nat \<Rightarrow> exn + CheckResult"

text \<open>
  What a run leaves behind: the number of executor calls, and the trace of the invocations
  of \<open>executeMonitorCheck\<close> (with the \<open>retries\<close> of the monitor passed), of the executor
  calls and of the pauses (in milliseconds).
\<close>

datatype event = Enter int | Probe | Sleep int

record exec_state =
  calls :: nat
  trace :: "event list"

text \<open>
  \<open>executeMonitorCheck(monitor)\<close> and its \<open>for\<close> loop, with the loop counter \<open>i\<close> and the
  first result as arguments. An error thrown by the executor leaves the \<open>try\<close> block and
  becomes a DOWN result; the recursive call is given \<open>retries = 0\<close>. The configuration
  is taken as an object already (a configuration stored as text that \<open>JSON.parse\<close>
  rejects would be one more thrown error).
\<close>

function executeMonitorCheck :: "'c checkers \<Rightarrow> 'c Monitor \<Rightarrow> exec_state \<Rightarrow> CheckResult \<times> exec_state"
  and retryLoop :: "'c checkers \<Rightarrow> 'c Monitor \<Rightarrow> CheckResult \<Rightarrow> nat \<Rightarrow> exec_state \<Rightarrow> CheckResult \<times> exec_state"
  where
  "executeMonitorCheck ck monitor s =
     (let s0 = s\<lparr> trace := trace s @ [Enter (retries monitor)] \<rparr> in
      if m_type monitor \<notin> set supported_types then
        (\<lparr> status = 0, message = MSG_TYPE_UNSUPPORTED @ m_type monitor, ping = None, details = None \<rparr>, s0)
      else
        let s1 = s0\<lparr> calls := calls s0 + 1, trace := trace s0 @ [Probe] \<rparr> in
        case ck (m_type monitor) (m_config monitor) (calls s0) of
          Inl e \<Rightarrow> (\<lparr> status = 0, message = MSG_CHECK_ERROR @ e, ping = None, details = None \<rparr>, s1)
        | Inr result \<Rightarrow>
            if status result = 0 \<and> retries monitor > 0 then retryLoop ck monitor result 0 s1
            else (result, s1))"
| "retryLoop ck monitor result i s =
     (if int i < retries monitor then
        let s1 = s\<lparr> trace := trace s @ [Sleep (retryInterval monitor * 1000)] \<rparr>;
            r = executeMonitorCheck ck (monitor\<lparr> retries := 0 \<rparr>) s1;
            retryResult = fst r
        in if status retryResult = 1 then
             (retryResult\<lparr> message := MSG_RETRY_OK @ show_int (int i + 1) @ ''/''
                 @ show_int (retries monitor) @ ''): '' @ message retryResult \<rparr>, snd r)
           else retryLoop ck monitor result (i + 1) (snd r)
      else
        (result\<lparr> message := MSG_RETRY @ show_int (retries monitor) @ MSG_STILL_FAILING @ message result \<rparr>, s))"
  by pat_completeness auto
termination
  by (relation "measures
        [\<lambda>x. case x of Inl (ck, m, s) \<Rightarrow> nat (retries m) | Inr (ck, m, r, i, s) \<Rightarrow> nat (retries m),
         \<lambda>x. case x of Inl (ck, m, s) \<Rightarrow> nat (retries m) + 1 | Inr (ck, m, r, i, s) \<Rightarrow> nat (retries m) - i]")
    auto

declare executeMonitorCheck.simps [simp del] retryLoop.simps [simp del]

text \<open>
  What one invocation without retries returns when its executor call is the \<open>n\<close>-th of
  the run: the executor's result, or the DOWN result made of the error it throws.
\<close>

definition attempt :: "'c checkers \<Rightarrow> 'c Monitor \<Rightarrow> nat \<Rightarrow> CheckResult" where
  "attempt ck monitor n =
     (case ck (m_type monitor) (m_config monitor) n of
        Inl e \<Rightarrow> \<lparr> status = 0, message = MSG_CHECK_ERROR @ e, ping = None, details = None \<rparr>
      | Inr result \<Rightarrow> result)"



text \<open>The trace of \<open>k\<close> retries: a pause, the inner invocation with \<open>retries = 0\<close>, its executor call.\<close>

definition retry_trace :: "'c Monitor \<Rightarrow> nat \<Rightarrow> event list" where
  "retry_trace monitor k = concat (replicate k [Sleep (retryInterval monitor * 1000), Enter 0, Probe])"

section \<open>Notification engine (sendStatusChangeNotifications of notification-service.ts)\<close>

text \<open>
  The literals: the status texts "abnormal", "normal", "waiting", "unknown"; "no details";
  "monitored address: "; the parts of the aggregated line "failed N times in a row, first
  failure at T, lasting D minutes"; "monitoring has recovered."; "the failure lasted about ",
  " minutes."; and the texts of the log lines (monitor not found, failed to send to a
  channel, error while handling the notifications of a monitor).
\<close>

definition STATUS_TEXT_DOWN :: string where
  "STATUS_TEXT_DOWN = [CHR 0xE5, CHR 0xBC, CHR 0x82, CHR 0xE5, CHR 0xB8, CHR 0xB8]"

definition STATUS_TEXT_UP :: string where
  "STATUS_TEXT_UP = [CHR 0xE6, CHR 0xAD, CHR 0xA3, CHR 0xE5, CHR 0xB8, CHR 0xB8]"

definition STATUS_TEXT_PENDING :: string where
  "STATUS_TEXT_PENDING = [CHR 0xE7, CHR 0xAD, CHR 0x89, CHR 0xE5, CHR 0xBE, CHR 0x85]"

definition STATUS_TEXT_UNKNOWN :: string where
  "STATUS_TEXT_UNKNOWN = [CHR 0xE6, CHR 0x9C, CHR 0xAA, CHR 0xE7, CHR 0x9F, CHR 0xA5]"

definition MSG_NO_DETAILS :: string where
  "MSG_NO_DETAILS = [CHR 0xE6, CHR 0x97, CHR 0xA0, CHR 0xE8, CHR 0xAF, CHR 0xA6, CHR 0xE7, CHR 0xBB, CHR 0x86, CHR 0xE4, CHR 0xBF, CHR 0xA1, CHR 0xE6, CHR 0x81, CHR 0xAF]"

definition MSG_ADDRESS :: string where
  "MSG_ADDRESS = [CHR 0xE7, CHR 0x9B, CHR 0x91, CHR 0xE6, CHR 0x8E, CHR 0xA7, CHR 0xE5, CHR 0x9C, CHR 0xB0, CHR 0xE5, CHR 0x9D, CHR 0x80] @ '': ''"

definition MSG_FAILED_1 :: string where
  "MSG_FAILED_1 = [CHR 0xE8, CHR 0xBF, CHR 0x9E, CHR 0xE7, CHR 0xBB, CHR 0xAD, CHR 0xE5, CHR 0xA4, CHR 0xB1, CHR 0xE8, CHR 0xB4, CHR 0xA5] @ '' ''"

definition MSG_FAILED_2 :: string where
  "MSG_FAILED_2 = '' '' @ [CHR 0xE6, CHR 0xAC, CHR 0xA1, CHR 0xEF, CHR 0xBC, CHR 0x8C, CHR 0xE9, CHR 0xA6, CHR 0x96, CHR 0xE6, CHR 0xAC, CHR 0xA1, CHR 0xE5, CHR 0xA4, CHR 0xB1, CHR 0xE8, CHR 0xB4, CHR 0xA5, CHR 0xE4, CHR 0xBA, CHR 0x8E] @ '' ''"

definition MSG_FAILED_3 :: string where
  "MSG_FAILED_3 = [CHR 0xEF, CHR 0xBC, CHR 0x8C, CHR 0xE6, CHR 0x8C, CHR 0x81, CHR 0xE7, CHR 0xBB, CHR 0xAD] @ '' ''"

definition MSG_FAILED_4 :: string where
  "MSG_FAILED_4 = '' '' @ [CHR 0xE5, CHR 0x88, CHR 0x86, CHR 0xE9, CHR 0x92, CHR 0x9F]"

definition MSG_RECOVERED :: string where
  "MSG_RECOVERED = [CHR 0xE7, CHR 0x9B, CHR 0x91, CHR 0xE6, CHR 0x8E, CHR 0xA7, CHR 0xE5, CHR 0xB7, CHR 0xB2, CHR 0xE6, CHR 0x81, CHR 0xA2, CHR 0xE5, CHR 0xA4, CHR 0x8D, CHR 0xE6, CHR 0xAD, CHR 0xA3, CHR 0xE5, CHR 0xB8, CHR 0xB8, CHR 0xE3, CHR 0x80, CHR 0x82]"

definition MSG_LASTED :: string where
  "MSG_LASTED = [CHR 0xE6, CHR 0x95, CHR 0x85, CHR 0xE9, CHR 0x9A, CHR 0x9C, CHR 0xE6, CHR 0x8C, CHR 0x81, CHR 0xE7, CHR 0xBB, CHR 0xAD, CHR 0xE4, CHR 0xBA, CHR 0x86, CHR 0xE7, CHR 0xBA, CHR 0xA6] @ '' ''"

definition MSG_MINUTES :: string where
  "MSG_MINUTES = '' '' @ [CHR 0xE5, CHR 0x88, CHR 0x86, CHR 0xE9, CHR 0x92, CHR 0x9F, CHR 0xE3, CHR 0x80, CHR 0x82]"

definition LOG_NOT_FOUND :: string where
  "LOG_NOT_FOUND = [CHR 0xE6, CHR 0x89, CHR 0xBE, CHR 0xE4, CHR 0xB8, CHR 0x8D, CHR 0xE5, CHR 0x88, CHR 0xB0, CHR 0xE7, CHR 0x9B, CHR 0x91, CHR 0xE6, CHR 0x8E, CHR 0xA7, CHR 0xE9, CHR 0xA1, CHR 0xB9] @ '': ''"

definition LOG_TO :: string where
  "LOG_TO = [CHR 0xE5, CHR 0x90, CHR 0x91] @ '' ''"

definition LOG_DOWN_FAILED :: string where
  "LOG_DOWN_FAILED = '' '' @ [CHR 0xE5, CHR 0x8F, CHR 0x91, CHR 0xE9, CHR 0x80, CHR 0x81, CHR 0xE5, CHR 0xA4, CHR 0xB1, CHR 0xE8, CHR 0xB4, CHR 0xA5, CHR 0xE9, CHR 0x80, CHR 0x9A, CHR 0xE7, CHR 0x9F, CHR 0xA5, CHR 0xE5, CHR 0xA4, CHR 0xB1, CHR 0xE8, CHR 0xB4, CHR 0xA5] @ '': ''"

definition LOG_RECOVERY_FAILED :: string where
  "LOG_RECOVERY_FAILED = '' '' @ [CHR 0xE5, CHR 0x8F, CHR 0x91, CHR 0xE9, CHR 0x80, CHR 0x81, CHR 0xE6, CHR 0x81, CHR 0xA2, CHR 0xE5, CHR 0xA4, CHR 0x8D, CHR 0xE9, CHR 0x80, CHR 0x9A, CHR 0xE7, CHR 0x9F, CHR 0xA5, CHR 0xE5, CHR 0xA4, CHR 0xB1, CHR 0xE8, CHR 0xB4, CHR 0xA5] @ '': ''"

definition LOG_OTHER_FAILED :: string where
  "LOG_OTHER_FAILED = '' '' @ [CHR 0xE5, CHR 0x8F, CHR 0x91, CHR 0xE9, CHR 0x80, CHR 0x81, CHR 0xE9, CHR 0x80, CHR 0x9A, CHR 0xE7, CHR 0x9F, CHR 0xA5, CHR 0xE5, CHR 0xA4, CHR 0xB1, CHR 0xE8, CHR 0xB4, CHR 0xA5] @ '': ''"

definition LOG_HANDLER_1 :: string where
  "LOG_HANDLER_1 = [CHR 0xE5, CHR 0xA4, CHR 0x84, CHR 0xE7, CHR 0x90, CHR 0x86, CHR 0xE7, CHR 0x9B, CHR 0x91, CHR 0xE6, CHR 0x8E, CHR 0xA7] @ '' ''"

definition LOG_HANDLER_2 :: string where
  "LOG_HANDLER_2 = '' '' @ [CHR 0xE7, CHR 0x8A, CHR 0xB6, CHR 0xE6, CHR 0x80, CHR 0x81, CHR 0xE5, CHR 0x8F, CHR 0x98, CHR 0xE6, CHR 0x9B, CHR 0xB4, CHR 0xE9, CHR 0x80, CHR 0x9A, CHR 0xE7, CHR 0x9F, CHR 0xA5, CHR 0xE6, CHR 0x97, CHR 0xB6, CHR 0xE5, CHR 0x87, CHR 0xBA, CHR 0xE9, CHR 0x94, CHR 0x99] @ '': ''"

record NotificationData =
  monitorName :: string
  monitorType :: string
  nd_status :: string
  statusText :: string
  statusCode :: int
  nd_time :: string
  nd_message :: string
  failureCount :: "int option"
  firstFailureTime :: "string option"
  lastFailureTime :: "string option"
  failureDuration :: "int option"

record NotificationChannel =
  ch_name :: string
  ch_type :: string
  ch_enabled :: bool

text \<open>
  The part of \<open>monitor.config\<close> the engine reads, and the monitor as the first query loads
  it: \<open>notificationBindings\<close> holds the channels of the enabled bindings, in the order of
  the query.
\<close>

record AddressConfig =
  cfg_url :: "string option"
  cfg_hostname :: "string option"
  cfg_port :: "port_value option"

record NotifiedMonitor =
  nm_name :: string
  nm_type :: string
  resendInterval :: int
  nm_config :: "AddressConfig option"
  notificationBindings :: "NotificationChannel list"

record repository =
  repo_monitors :: "string \<rightharpoonup> NotifiedMonitor"
  repo_history :: "MonitorStatus list"

text \<open>The entries of \<open>notificationCache\<close>, and what the engine holds and leaves behind:
  the cache, the notifications it decided to emit, every dispatch it attempted (channel
  and payload) and the lines written with \<open>console.error\<close>.\<close>

record cache_entry =
  c_time :: int
  c_status :: int

record engine =
  notificationCache :: "string \<rightharpoonup> cache_entry"
  emitted :: "NotificationData list"
  sent :: "(NotificationChannel \<times> NotificationData) list"
  errorLog :: "string list"

text \<open>
  The five repository queries of the function, and what a call cannot decide itself: the
  clock, \<open>formatDateTime\<close> (imported from a module outside the sources at hand; its
  argument is absent for the current time), the queries that reject, and the error
  \<open>sendNotification\<close> throws for a channel, if any.
\<close>

datatype query = Q_findMonitor | Q_countSince | Q_lastSuccess | Q_countTotal | Q_firstFailure

record notify_env =
  env_now :: int
  formatDateTime :: "int option \<Rightarrow> string"
  queryFails :: "query \<Rightarrow> exn option"
  sendFails :: "NotificationChannel \<Rightarrow> exn option"

definition STATUS_TEXT_CN :: "int \<Rightarrow> string" where
  "STATUS_TEXT_CN st =
     (if st = 0 then STATUS_TEXT_DOWN else if st = 1 then STATUS_TEXT_UP
      else if st = 2 then STATUS_TEXT_PENDING else STATUS_TEXT_UNKNOWN)"

text \<open>The history queries. Timestamps order the rows; rows of other monitors do not count.\<close>

definition monitorRows :: "repository \<Rightarrow> string \<Rightarrow> MonitorStatus list" where
  "monitorRows db mid = filter (\<lambda>r. row_monitorId r = mid) (repo_history db)"

text \<open>\<open>statusHistory: { orderBy: { timestamp: 'desc' }, take: 2 }\<close>.\<close>

definition statusHistory2 :: "repository \<Rightarrow> string \<Rightarrow> MonitorStatus list" where
  "statusHistory2 db mid = take 2 (rev (sort_key row_timestamp (monitorRows db mid)))"

text \<open>\<open>count({ monitorId, status: 0, timestamp: { gt: t } })\<close>.\<close>

definition downRowsAfter :: "repository \<Rightarrow> string \<Rightarrow> int \<Rightarrow> MonitorStatus list" where
  "downRowsAfter db mid t = filter (\<lambda>r. row_status r = 0 \<and> row_timestamp r > t) (monitorRows db mid)"

fun greatest :: "int list \<Rightarrow> int option" where
  "greatest [] = None"
| "greatest (x # xs) = (case greatest xs of None \<Rightarrow> Some x | Some y \<Rightarrow> Some (max x y))"

fun least :: "int list \<Rightarrow> int option" where
  "least [] = None"
| "least (x # xs) = (case least xs of None \<Rightarrow> Some x | Some y \<Rightarrow> Some (min x y))"

text \<open>The timestamp of \<open>findFirst({ monitorId, status: 1 }, orderBy timestamp desc)\<close>.\<close>

definition lastSuccessTime :: "repository \<Rightarrow> string \<Rightarrow> int option" where
  "lastSuccessTime db mid = greatest (map row_timestamp (filter (\<lambda>r. row_status r = 1) (monitorRows db mid)))"

text \<open>The timestamp of \<open>findFirst({ monitorId, status: 0, timestamp > t }, orderBy timestamp asc)\<close>.\<close>

definition firstFailureAfter :: "repository \<Rightarrow> string \<Rightarrow> int \<Rightarrow> int option" where
  "firstFailureAfter db mid t = least (map row_timestamp (downRowsAfter db mid t))"

text \<open>\<open>Math.floor((now - t) / 1000 / 60)\<close>.\<close>

definition minutesBetween :: "int \<Rightarrow> int \<Rightarrow> int" where
  "minutesBetween now t = \<lfloor>real_of_int (now - t) / 1000 / 60\<rfloor>"

text \<open>A string or a port in a condition: absent, empty and the number 0 are falsy.\<close>

definition given :: "string option \<Rightarrow> bool" where
  "given v = (case v of None \<Rightarrow> False | Some s \<Rightarrow> s \<noteq> [])"

definition port_given :: "port_value option \<Rightarrow> bool" where
  "port_given v = (case v of None \<Rightarrow> False | Some (PortNumber n) \<Rightarrow> n \<noteq> 0 | Some (PortString s) \<Rightarrow> s \<noteq> [])"

text \<open>The message after the block that puts the monitored address before it.\<close>

definition withAddress :: "AddressConfig option \<Rightarrow> string \<Rightarrow> string" where
  "withAddress config msg =
     (case config of
        None \<Rightarrow> msg
      | Some monitorConfig \<Rightarrow>
          if given (cfg_url monitorConfig) then MSG_ADDRESS @ the (cfg_url monitorConfig) @ [CHR 0x0A] @ msg
          else if given (cfg_hostname monitorConfig) then
            MSG_ADDRESS
            @ (if port_given (cfg_port monitorConfig)
               then the (cfg_hostname monitorConfig) @ '':'' @ port_text (the (cfg_port monitorConfig))
               else the (cfg_hostname monitorConfig))
            @ [CHR 0x0A] @ msg
          else msg)"

text \<open>
  One of the three \<open>for\<close> loops over the bindings: a disabled channel is skipped; an error
  of \<open>sendNotification\<close> is caught inside the loop body and logged with the channel's name
  and type, and the loop goes on. \<open>label\<close> is the text of the loop's log line.
\<close>

fun dispatch :: "notify_env \<Rightarrow> string \<Rightarrow> NotificationData \<Rightarrow> NotificationChannel list \<Rightarrow> engine \<Rightarrow> engine" where
  "dispatch env label d [] st = st"
| "dispatch env label d (channel # rest) st =
     (if \<not> ch_enabled channel then dispatch env label d rest st
      else
        let st1 = st\<lparr> sent := sent st @ [(channel, d)] \<rparr> in
        case sendFails env channel of
          None \<Rightarrow> dispatch env label d rest st1
        | Some e \<Rightarrow>
            dispatch env label d rest
              (st1\<lparr> errorLog := errorLog st1
                   @ [LOG_TO @ ch_name channel @ ''('' @ ch_type channel @ '')'' @ label @ e] \<rparr>))"

text \<open>Emitting: the loop over the bindings, then the update of the cache.\<close>

definition emit ::
  "notify_env \<Rightarrow> string \<Rightarrow> NotifiedMonitor \<Rightarrow> string \<Rightarrow> NotificationData \<Rightarrow> int \<Rightarrow> engine \<Rightarrow> engine" where
  "emit env label monitor monitorId d st_code st =
     (let st1 = dispatch env label d (notificationBindings monitor) (st\<lparr> emitted := emitted st @ [d] \<rparr>)
      in st1\<lparr> notificationCache := (notificationCache st1)(monitorId \<mapsto> \<lparr> c_time = env_now env, c_status = st_code \<rparr>) \<rparr>)"

text \<open>The previous status the decision uses (\<open>realPrevStatus\<close>), and \<open>isNewMonitor\<close>.\<close>

definition isNewMonitor :: "repository \<Rightarrow> string \<Rightarrow> bool" where
  "isNewMonitor db mid = (length (statusHistory2 db mid) \<le> 1)"

definition realPrevStatus :: "repository \<Rightarrow> string \<Rightarrow> int option \<Rightarrow> int option" where
  "realPrevStatus db mid prevStatus =
     (if prevStatus = None \<and> \<not> isNewMonitor db mid \<and> length (statusHistory2 db mid) > 1
      then Some (row_status (statusHistory2 db mid ! 1))
      else prevStatus)"

text \<open>
  The payloads, in the order the function builds them: \<open>notificationData\<close> (with the
  address line), \<open>aggregatedData\<close> of the branch for DOWN (after its three queries), and
  \<open>recoveryData\<close> of the branch for a recovery.
\<close>

definition baseData :: "notify_env \<Rightarrow> NotifiedMonitor \<Rightarrow> int \<Rightarrow> string \<Rightarrow> NotificationData" where
  "baseData env monitor st_code msg =
     \<lparr> monitorName = nm_name monitor,
       monitorType = nm_type monitor,
       nd_status = STATUS_TEXT_CN st_code,
       statusText = STATUS_TEXT_CN st_code,
       statusCode = st_code,
       nd_time = formatDateTime env None,
       nd_message = withAddress (nm_config monitor) (if msg = [] then MSG_NO_DETAILS else msg),
       failureCount = None, firstFailureTime = None, lastFailureTime = None, failureDuration = None \<rparr>"

definition aggregatedData :: "notify_env \<Rightarrow> repository \<Rightarrow> string \<Rightarrow> NotificationData \<Rightarrow> NotificationData" where
  "aggregatedData env db monitorId notificationData =
     (let continuousFailureStartTime = (case lastSuccessTime db monitorId of None \<Rightarrow> 0 | Some t \<Rightarrow> t);
          totalFailures = int (length (downRowsAfter db monitorId continuousFailureStartTime));
          firstContinuousFailure = firstFailureAfter db monitorId continuousFailureStartTime;
          duration = (case firstContinuousFailure of
                        None \<Rightarrow> 0 | Some t \<Rightarrow> minutesBetween (env_now env) t);
          firstText = (case firstContinuousFailure of
                         None \<Rightarrow> STATUS_TEXT_UNKNOWN | Some t \<Rightarrow> formatDateTime env (Some t))
      in notificationData\<lparr>
           failureCount := Some totalFailures,
           firstFailureTime := Some firstText,
           lastFailureTime := Some (formatDateTime env None),
           failureDuration := Some duration,
           nd_message := MSG_FAILED_1 @ show_int totalFailures @ MSG_FAILED_2 @ firstText
             @ MSG_FAILED_3 @ show_int duration @ MSG_FAILED_4 @ [CHR 0x0A]
             @ nd_message notificationData \<rparr>)"

definition recoverDuration :: "notify_env \<Rightarrow> cache_entry option \<Rightarrow> int" where
  "recoverDuration env lastNotification =
     (case lastNotification of
        None \<Rightarrow> 0
      | Some l \<Rightarrow> if c_status l = 0 then minutesBetween (env_now env) (c_time l) else 0)"

definition recoveryData :: "notify_env \<Rightarrow> cache_entry option \<Rightarrow> NotificationData \<Rightarrow> NotificationData" where
  "recoveryData env lastNotification notificationData =
     notificationData\<lparr>
       nd_message := MSG_RECOVERED
         @ (if recoverDuration env lastNotification > 0
            then MSG_LASTED @ show_int (recoverDuration env lastNotification) @ MSG_MINUTES else [])
         @ [CHR 0x0A] @ nd_message notificationData \<rparr>"

text \<open>
  The branch for \<open>status === 0\<close>: the test for a repeat, then the three queries of the
  aggregation, the loop and the cache. A rejected query throws.
\<close>

definition aggregate ::
  "notify_env \<Rightarrow> repository \<Rightarrow> string \<Rightarrow> NotifiedMonitor \<Rightarrow> NotificationData \<Rightarrow> engine \<Rightarrow> exn + engine" where
  "aggregate env db monitorId monitor notificationData st =
     (case queryFails env Q_lastSuccess of
        Some e \<Rightarrow> Inl e
      | None \<Rightarrow>
          (case queryFails env Q_countTotal of
             Some e \<Rightarrow> Inl e
           | None \<Rightarrow>
               (case queryFails env Q_firstFailure of
                  Some e \<Rightarrow> Inl e
                | None \<Rightarrow>
                    Inr (emit env LOG_DOWN_FAILED monitor monitorId
                           (aggregatedData env db monitorId notificationData) 0 st))))"

definition downBranch ::
  "notify_env \<Rightarrow> repository \<Rightarrow> string \<Rightarrow> NotifiedMonitor \<Rightarrow> NotificationData \<Rightarrow> engine \<Rightarrow> exn + engine" where
  "downBranch env db monitorId monitor notificationData st =
     (let lastNotification = notificationCache st monitorId;
          lastWasDown = (case lastNotification of None \<Rightarrow> False | Some l \<Rightarrow> c_status l = 0)
      in if resendInterval monitor > 0 then
           (if lastWasDown then
              (case queryFails env Q_countSince of
                 Some e \<Rightarrow> Inl e
               | None \<Rightarrow>
                   let failuresSinceLastNotification =
                         int (length (downRowsAfter db monitorId (c_time (the lastNotification))))
                   in if failuresSinceLastNotification < resendInterval monitor then Inr st
                      else aggregate env db monitorId monitor notificationData st)
            else aggregate env db monitorId monitor notificationData st)
         else (if lastWasDown then Inr st
               else aggregate env db monitorId monitor notificationData st))"

text \<open>The body of the \<open>try\<close> block; an error thrown inside it is the left side.\<close>

definition notifyBody ::
  "notify_env \<Rightarrow> repository \<Rightarrow> string \<Rightarrow> int \<Rightarrow> string \<Rightarrow> int option \<Rightarrow> engine \<Rightarrow> exn + engine" where
  "notifyBody env db monitorId st_code msg prevStatus st =
     (case queryFails env Q_findMonitor of
        Some e \<Rightarrow> Inl e
      | None \<Rightarrow>
          (case repo_monitors db monitorId of
             None \<Rightarrow> Inr (st\<lparr> errorLog := errorLog st @ [LOG_NOT_FOUND @ monitorId] \<rparr>)
           | Some monitor \<Rightarrow>
               if notificationBindings monitor = [] then Inr st
               else
                 let isNew = isNewMonitor db monitorId;
                     realPrev = realPrevStatus db monitorId prevStatus
                 in if prevStatus \<noteq> None \<and> realPrev = Some st_code then Inr st
                    else if isNew \<and> st_code = 1 then Inr st
                    else
                      let notificationData = baseData env monitor st_code msg;
                          lastNotification = notificationCache st monitorId
                      in if st_code = 0 then downBranch env db monitorId monitor notificationData st
                         else if st_code = 1 \<and> realPrev = Some 0 \<and> \<not> isNew then
                           Inr (emit env LOG_RECOVERY_FAILED monitor monitorId
                                  (recoveryData env lastNotification notificationData) 1 st)
                         else Inr (emit env LOG_OTHER_FAILED monitor monitorId notificationData st_code st)))"

text \<open>
  \<open>sendStatusChangeNotifications(monitorId, status, message, prevStatus)\<close>: the \<open>try\<close> block
  and its \<open>catch\<close>, which logs. No statement that can throw follows a write to the cache,
  so the engine before the call is the one the handler sees. The result is the left side
  if the promise rejects.
\<close>

definition sendStatusChangeNotifications ::
  "notify_env \<Rightarrow> repository \<Rightarrow> string \<Rightarrow> int \<Rightarrow> string \<Rightarrow> int option \<Rightarrow> engine \<Rightarrow> exn + engine" where
  "sendStatusChangeNotifications env db monitorId st_code msg prevStatus st =
     (case notifyBody env db monitorId st_code msg prevStatus st of
        Inl e \<Rightarrow> Inr (st\<lparr> errorLog := errorLog st @ [LOG_HANDLER_1 @ monitorId @ LOG_HANDLER_2 @ e] \<rparr>)
      | Inr st' \<Rightarrow> Inr st')"

text \<open>
  The quantities of the decision in the specification's words, read off the history rows
  directly, for comparison with what the queries of the code return: the DOWN rows of a
  monitor with a timestamp strictly later than \<open>t\<close>; \<open>start\<close> being the timestamp of the
  monitor's most recent UP row, or 0 (the epoch) when it has none; and \<open>t\<close> being the
  timestamp of the earliest of some rows.
\<close>

definition failuresSince :: "repository \<Rightarrow> string \<Rightarrow> int \<Rightarrow> MonitorStatus list" where
  "failuresSince db mid t =
     filter (\<lambda>r. row_monitorId r = mid \<and> row_status r = 0 \<and> t < row_timestamp r) (repo_history db)"

definition isFailureStart :: "repository \<Rightarrow> string \<Rightarrow> int \<Rightarrow> bool" where
  "isFailureStart db mid start =
     (let ups = filter (\<lambda>r. row_monitorId r = mid \<and> row_status r = 1) (repo_history db)
      in if ups = [] then start = 0
         else (\<exists>u \<in> set ups. row_timestamp u = start) \<and> (\<forall>u \<in> set ups. row_timestamp u \<le> start))"

definition isEarliest :: "MonitorStatus list \<Rightarrow> int \<Rightarrow> bool" where
  "isEarliest rows t = ((\<exists>r \<in> set rows. row_timestamp r = t) \<and> (\<forall>r \<in> set rows. t \<le> row_timestamp r))"

section \<open>A persistent failure with repeat interval 2\<close>

text \<open>
  The scenario used below to run the engine: an HTTP monitor with \<open>resendInterval = 2\<close> and
  one enabled e-mail channel, probed every 5 seconds from the epoch of the identifiers on,
  every probe DOWN. The first probe's notification was emitted 10 ms after its row was
  written, which is what the cache holds; the engine is now called for the third probe,
  after its row was written.
\<close>

definition scenario_channel :: NotificationChannel where
  "scenario_channel = \<lparr> ch_name = ''ops'', ch_type = ''email'', ch_enabled = True \<rparr>"

definition scenario_monitor :: NotifiedMonitor where
  "scenario_monitor =
     \<lparr> nm_name = ''shop'', nm_type = ''http'', resendInterval = 2,
       nm_config = Some \<lparr> cfg_url = Some ''http://shop.local'', cfg_hostname = None, cfg_port = None \<rparr>,
       notificationBindings = [scenario_channel] \<rparr>"

definition scenario_row :: "string \<Rightarrow> int \<Rightarrow> int \<Rightarrow> MonitorStatus" where
  "scenario_row ident st t =
     \<lparr> row_id = ident, row_monitorId = ''m1'', row_status = st,
       row_message = (if st = 1 then None else Some ''HTTP 500''), row_ping = None,
       row_details = None, row_timestamp = t \<rparr>"

definition scenario_repo :: repository where
  "scenario_repo =
     \<lparr> repo_monitors = [''m1'' \<mapsto> scenario_monitor],
       repo_history = [scenario_row ''000000aaa'' 0 1704067200000,
                       scenario_row ''00002nbbb'' 0 1704067205000,
                       scenario_row ''00005accc'' 0 1704067210000] \<rparr>"

definition scenario_env :: notify_env where
  "scenario_env =
     \<lparr> env_now = 1704067210010, formatDateTime = (\<lambda>t. ''2024-01-01 00:00:00''),
       queryFails = (\<lambda>q. None), sendFails = (\<lambda>ch. None) \<rparr>"

definition scenario_engine :: engine where
  "scenario_engine =
     \<lparr> notificationCache = [''m1'' \<mapsto> \<lparr> c_time = 1704067200010, c_status = 0 \<rparr>],
       emitted = [], sent = [], errorLog = [] \<rparr>"

text \<open>
  The recovery that follows: the fourth probe, 15 seconds after the first, is UP; its row
  is written, and the engine is called with the previous status DOWN while the cache still
  holds the notification of the first probe.
\<close>

definition recovery_repo :: repository where
  "recovery_repo =
     scenario_repo\<lparr> repo_history := repo_history scenario_repo @ [scenario_row ''00007xddd'' 1 1704067215000] \<rparr>"

definition recovery_env :: "int \<Rightarrow> notify_env" where
  "recovery_env now = scenario_env\<lparr> env_now := now \<rparr>"

text \<open>
  A run of failures after a success, seen after a restart (empty cache, no previous status
  passed): the monitor failed ten minutes before the epoch, was UP at the epoch, and is
  DOWN 5 and 65 seconds after it; another monitor has a DOWN row in between. The engine is
  called 130 seconds after the epoch.
\<close>

definition outage_repo :: repository where
  "outage_repo =
     \<lparr> repo_monitors = [''m1'' \<mapsto> scenario_monitor],
       repo_history = [scenario_row ''zzzzzzaaa'' 0 1704066600000,
                       scenario_row ''000000bbb'' 1 1704067200000,
                       (scenario_row ''00000nccc'' 0 1704067201000)\<lparr> row_monitorId := ''m2'' \<rparr>,
                       scenario_row ''00002nddd'' 0 1704067205000,
                       scenario_row ''0000x3eee'' 0 1704067265000] \<rparr>"

definition outage_env :: notify_env where
  "outage_env =
     \<lparr> env_now = 1704067330010,
       formatDateTime = (\<lambda>t. if t = Some 1704067205000 then ''2024-01-01 00:00:05'' else ''another time''),
       queryFails = (\<lambda>q. None), sendFails = (\<lambda>ch. None) \<rparr>"

definition fresh_engine :: engine where
  "fresh_engine = \<lparr> notificationCache = Map.empty, emitted = [], sent = [], errorLog = [] \<rparr>"

section \<open>Properties of the compact message and of the recorder\<close>

lemma generateCompactMessage_None_iff:
  "generateCompactMessage st msg pg = None \<longleftrightarrow> st = UP"
  by (simp add: generateCompactMessage_def)

lemmas recorder_defs =
  recordMonitorStatus_def recordMonitorStatusAmid_def createStatus_def updateMonitor_def

lemma createStatus_Inr:
  assumes "createStatus io params db = (Inr row, d1)"
  shows "d1 = db\<lparr> statusHistory := statusHistory db @ [row] \<rparr>"
    and "row_message row = generateCompactMessage (p_status params) (p_message params) (p_ping params)"
    and "row_status row = p_status params"
    and "row_monitorId row = p_monitorId params"
    and "row_timestamp row = io_now io"
  using assms
  by (auto simp: createStatus_def Let_def split: sum.splits if_splits)

lemma updateMonitor_Inr:
  assumes "updateMonitor io params d = (Inr u, d')"
  shows "\<exists>old. monitors d (p_monitorId params) = Some old
           \<and> d' = d\<lparr> monitors := (monitors d)(p_monitorId params \<mapsto>
                  \<lparr> lastCheckAt = Some (io_now io), lastStatus = Some (p_status params),
                    lastMessage = Some (p_message params),
                    lastPing = (case p_ping params of None \<Rightarrow> lastPing old | Some p \<Rightarrow> Some p) \<rparr>) \<rparr>"
  using assms
  by (auto simp: updateMonitor_def split: option.splits if_splits)

lemma recordMonitorStatusAmid_Inr:
  assumes "recordMonitorStatusAmid io params between db = (Inr row, db')"
  shows "\<exists>d1 u. createStatus io params db = (Inr row, d1)
           \<and> updateMonitor io params (between d1) = (Inr u, db')"
  using assms
  by (auto simp: recordMonitorStatusAmid_def split: prod.splits sum.splits)

lemma updateMonitor_history [simp]:
  "statusHistory (snd (updateMonitor io params d)) = statusHistory d"
  by (simp add: updateMonitor_def split: option.splits)

lemma recordMonitorStatus_history:
  "statusHistory (snd (recordMonitorStatus io params db)) = statusHistory (snd (createStatus io params db))"
proof (cases "createStatus io params db")
  case (Pair res d1)
  show ?thesis
  proof (cases res)
    case (Inl e)
    with Pair show ?thesis by (simp add: recordMonitorStatus_def recordMonitorStatusAmid_def)
  next
    case (Inr inserted)
    obtain res2 d2 where u: "updateMonitor io params d1 = (res2, d2)" by (cases "updateMonitor io params d1")
    have "statusHistory d2 = statusHistory d1"
      using updateMonitor_history [of io params d1] by (simp add: u)
    with Pair Inr u show ?thesis
      by (cases res2) (simp_all add: recordMonitorStatus_def recordMonitorStatusAmid_def)
  qed
qed

lemma foldl_newer_mem:
  "foldl newer acc xs = Some b \<Longrightarrow> b \<in> set xs \<or> acc = Some b"
proof (induction xs arbitrary: acc)
  case Nil
  then show ?case by simp
next
  case (Cons x xs)
  from Cons.prems have "foldl newer (newer acc x) xs = Some b" by simp
  from Cons.IH [OF this] show ?case
    by (cases acc) (auto split: if_splits)
qed

lemma mostRecentRow_last:
  assumes rows: "filter (\<lambda>r. row_monitorId r = mid) (statusHistory d) = xs @ [row]"
    and lt: "\<forall>r \<in> set xs. row_timestamp r < row_timestamp row"
  shows "mostRecentRow d mid = Some row"
proof (cases "foldl newer None xs")
  case None
  then show ?thesis by (simp add: mostRecentRow_def rows)
next
  case (Some b)
  from foldl_newer_mem [OF Some] have "b \<in> set xs" by auto
  with lt have "row_timestamp b \<le> row_timestamp row" by force
  with Some show ?thesis by (simp add: mostRecentRow_def rows)
qed

text \<open>
  C4 (as stated, refuted). The claim makes the stored message null exactly for an UP row of
  a monitor that is not of type push. For a push monitor reporting UP with the message
  \<open>OK\<close>, the row the recorder inserts has a null message, where the specification's rule
  keeps the message.
\<close>

theorem C4_push_up_stored_null:
  "map_sum id row_message (fst (recordMonitorStatus
      \<lparr> io_newId = Inr ''0006000ab'', io_now = 1704067594290, io_createFails = False, io_updateFails = False \<rparr>
      \<lparr> p_monitorId = ''m1'', p_status = 1, p_message = ''OK'', p_ping = Some 12, p_details = None,
        p_monitorType = Some ''push'' \<rparr>
      \<lparr> statusHistory = [], monitors = [''m1'' \<mapsto> \<lparr> lastCheckAt = None, lastStatus = None,
        lastMessage = None, lastPing = None \<rparr>] \<rparr>)) = Inr None
   \<and> spec_compactMessage 1 ''OK'' (Some ''push'') = Some ''OK''"
  by (simp add: recorder_defs generateCompactMessage_def spec_compactMessage_def
      Let_def UP_def DOWN_def PENDING_def trimEnd_def is_space_def)

text \<open>
  C4 (amended). Whenever the recorder inserts a history row, the stored message is null if
  and only if the status is UP, whatever the monitor type; for PENDING it is the literal
  "waiting"; for DOWN and for any other status it is the original message, unchanged.
\<close>

theorem C4_stored_message:
  assumes "statusHistory (snd (recordMonitorStatus io params db)) = statusHistory db @ [row]"
  shows "row_message row =
           (if p_status params = UP then None
            else if p_status params = PENDING then Some MSG_PENDING
            else Some (p_message params))
         \<and> (row_message row = None \<longleftrightarrow> p_status params = UP)"
proof -
  from assms have "statusHistory (snd (createStatus io params db)) = statusHistory db @ [row]"
    by (simp add: recordMonitorStatus_history)
  then show ?thesis
    by (auto simp: createStatus_def generateCompactMessage_def Let_def UP_def DOWN_def PENDING_def
        split: sum.splits if_splits)
qed

theorem C4_stored_message_witness:
  "row_message \<lparr> row_id = ''0006000ab'', row_monitorId = ''m1'', row_status = 0,
      row_message = Some ''timeout  '', row_ping = None, row_details = None,
      row_timestamp = 1704067594290 \<rparr> = Some ''timeout  ''"
  using C4_stored_message [of
      "\<lparr> io_newId = Inr ''0006000ab'', io_now = 1704067594290, io_createFails = False, io_updateFails = True \<rparr>"
      "\<lparr> p_monitorId = ''m1'', p_status = 0, p_message = ''timeout  '', p_ping = None, p_details = None,
        p_monitorType = Some ''http'' \<rparr>"
      "\<lparr> statusHistory = [], monitors = Map.empty \<rparr>"
      "\<lparr> row_id = ''0006000ab'', row_monitorId = ''m1'', row_status = 0,
        row_message = Some ''timeout  '', row_ping = None, row_details = None,
        row_timestamp = 1704067594290 \<rparr>"]
  by (simp add: recorder_defs generateCompactMessage_def Let_def UP_def DOWN_def PENDING_def)

text \<open>
  C3 (as stated, refuted). The insert and the update are two separate writes. When the
  second one is rejected, the inserted DOWN row stays in the history while the monitor
  keeps its previous last status UP: the promise rejects, and the last status differs from
  the status of the most recent history row.
\<close>

theorem C3_update_rejected_diverges:
  "fst (recordMonitorStatus
      \<lparr> io_newId = Inr ''0006000ab'', io_now = 1704067594290, io_createFails = False, io_updateFails = True \<rparr>
      \<lparr> p_monitorId = ''m1'', p_status = 0, p_message = ''timeout'', p_ping = None, p_details = None,
        p_monitorType = Some ''http'' \<rparr>
      \<lparr> statusHistory = [], monitors = [''m1'' \<mapsto> \<lparr> lastCheckAt = Some 1704067534290,
        lastStatus = Some 1, lastMessage = Some ''OK'', lastPing = Some 12 \<rparr>] \<rparr>) = Inl ERR_UPDATE
   \<and> map_option row_status (mostRecentRow (snd (recordMonitorStatus
      \<lparr> io_newId = Inr ''0006000ab'', io_now = 1704067594290, io_createFails = False, io_updateFails = True \<rparr>
      \<lparr> p_monitorId = ''m1'', p_status = 0, p_message = ''timeout'', p_ping = None, p_details = None,
        p_monitorType = Some ''http'' \<rparr>
      \<lparr> statusHistory = [], monitors = [''m1'' \<mapsto> \<lparr> lastCheckAt = Some 1704067534290,
        lastStatus = Some 1, lastMessage = Some ''OK'', lastPing = Some 12 \<rparr>] \<rparr>)) ''m1'') = Some 0
   \<and> lastStatusOf (snd (recordMonitorStatus
      \<lparr> io_newId = Inr ''0006000ab'', io_now = 1704067594290, io_createFails = False, io_updateFails = True \<rparr>
      \<lparr> p_monitorId = ''m1'', p_status = 0, p_message = ''timeout'', p_ping = None, p_details = None,
        p_monitorType = Some ''http'' \<rparr>
      \<lparr> statusHistory = [], monitors = [''m1'' \<mapsto> \<lparr> lastCheckAt = Some 1704067534290,
        lastStatus = Some 1, lastMessage = Some ''OK'', lastPing = Some 12 \<rparr>] \<rparr>)) ''m1'' = Some 1"
  by (simp add: recorder_defs generateCompactMessage_def mostRecentRow_def lastStatusOf_def
      Let_def UP_def DOWN_def PENDING_def)

text \<open>
  Two calls for one monitor that overlap: the first inserts its DOWN row, the second then
  inserts its UP row and updates the monitor, and the first updates the monitor last. Both
  return their row; the most recent row is UP and the last status is DOWN.
\<close>

lemma overlapping_calls_diverge:
  "fst (recordMonitorStatusAmid
      \<lparr> io_newId = Inr ''0006000ab'', io_now = 1704067594290, io_createFails = False, io_updateFails = False \<rparr>
      \<lparr> p_monitorId = ''m1'', p_status = 0, p_message = ''timeout'', p_ping = None, p_details = None,
        p_monitorType = Some ''push'' \<rparr>
      (\<lambda>d. snd (recordMonitorStatus
         \<lparr> io_newId = Inr ''0006000cd'', io_now = 1704067594295, io_createFails = False, io_updateFails = False \<rparr>
         \<lparr> p_monitorId = ''m1'', p_status = 1, p_message = ''OK'', p_ping = Some 7, p_details = None,
           p_monitorType = Some ''push'' \<rparr> d))
      \<lparr> statusHistory = [], monitors = [''m1'' \<mapsto> \<lparr> lastCheckAt = None, lastStatus = None,
        lastMessage = None, lastPing = None \<rparr>] \<rparr>)
     = Inr \<lparr> row_id = ''0006000ab'', row_monitorId = ''m1'', row_status = 0, row_message = Some ''timeout'',
            row_ping = None, row_details = None, row_timestamp = 1704067594290 \<rparr>
   \<and> map_option row_status (mostRecentRow (snd (recordMonitorStatusAmid
      \<lparr> io_newId = Inr ''0006000ab'', io_now = 1704067594290, io_createFails = False, io_updateFails = False \<rparr>
      \<lparr> p_monitorId = ''m1'', p_status = 0, p_message = ''timeout'', p_ping = None, p_details = None,
        p_monitorType = Some ''push'' \<rparr>
      (\<lambda>d. snd (recordMonitorStatus
         \<lparr> io_newId = Inr ''0006000cd'', io_now = 1704067594295, io_createFails = False, io_updateFails = False \<rparr>
         \<lparr> p_monitorId = ''m1'', p_status = 1, p_message = ''OK'', p_ping = Some 7, p_details = None,
           p_monitorType = Some ''push'' \<rparr> d))
      \<lparr> statusHistory = [], monitors = [''m1'' \<mapsto> \<lparr> lastCheckAt = None, lastStatus = None,
        lastMessage = None, lastPing = None \<rparr>] \<rparr>)) ''m1'') = Some 1
   \<and> lastStatusOf (snd (recordMonitorStatusAmid
      \<lparr> io_newId = Inr ''0006000ab'', io_now = 1704067594290, io_createFails = False, io_updateFails = False \<rparr>
      \<lparr> p_monitorId = ''m1'', p_status = 0, p_message = ''timeout'', p_ping = None, p_details = None,
        p_monitorType = Some ''push'' \<rparr>
      (\<lambda>d. snd (recordMonitorStatus
         \<lparr> io_newId = Inr ''0006000cd'', io_now = 1704067594295, io_createFails = False, io_updateFails = False \<rparr>
         \<lparr> p_monitorId = ''m1'', p_status = 1, p_message = ''OK'', p_ping = Some 7, p_details = None,
           p_monitorType = Some ''push'' \<rparr> d))
      \<lparr> statusHistory = [], monitors = [''m1'' \<mapsto> \<lparr> lastCheckAt = None, lastStatus = None,
        lastMessage = None, lastPing = None \<rparr>] \<rparr>)) ''m1'' = Some 0"
  by (simp add: recorder_defs generateCompactMessage_def mostRecentRow_def lastStatusOf_def
      Let_def UP_def DOWN_def PENDING_def)

text \<open>
  C3 (amended). The recorder inserts the history row and then, in a second and separate
  write with no transaction around the two, sets the monitor's \<open>lastCheckAt\<close> to now,
  \<open>lastStatus\<close> to the status, \<open>lastMessage\<close> to the original message and \<open>lastPing\<close> to
  the ping (an absent ping leaves \<open>lastPing\<close> as it was). Whenever a call returns a row
  (both writes accepted), nothing else wrote to this monitor's history rows or last-known
  fields between its two writes (no other call for the monitor overlaps it; writes for
  other monitors may), and every earlier row of the monitor is stamped before now, that
  row is the monitor's most recent history row and the monitor's last status is its status.
\<close>

theorem C3_record_success:
  assumes ok: "recordMonitorStatusAmid io params between db = (Inr row, db')"
    and quiet_rows:
      "filter (\<lambda>r. row_monitorId r = p_monitorId params)
          (statusHistory (between (snd (createStatus io params db))))
       = filter (\<lambda>r. row_monitorId r = p_monitorId params)
          (statusHistory (snd (createStatus io params db)))"
    and quiet_monitor:
      "monitors (between (snd (createStatus io params db))) (p_monitorId params)
       = monitors db (p_monitorId params)"
    and clock: "\<forall>r \<in> set (statusHistory db).
                  row_monitorId r = p_monitorId params \<longrightarrow> row_timestamp r < io_now io"
  shows "mostRecentRow db' (p_monitorId params) = Some row
       \<and> row_status row = p_status params
       \<and> lastStatusOf db' (p_monitorId params) = Some (row_status row)
       \<and> (\<exists>old. monitors db (p_monitorId params) = Some old
            \<and> monitors db' (p_monitorId params) =
                Some \<lparr> lastCheckAt = Some (io_now io), lastStatus = Some (p_status params),
                       lastMessage = Some (p_message params),
                       lastPing = (case p_ping params of None \<Rightarrow> lastPing old | Some p \<Rightarrow> Some p) \<rparr>)"
proof -
  let ?mid = "p_monitorId params"
  from recordMonitorStatusAmid_Inr [OF ok] obtain d1 u where
    cr: "createStatus io params db = (Inr row, d1)"
    and up: "updateMonitor io params (between d1) = (Inr u, db')" by blast
  have d1: "snd (createStatus io params db) = d1" by (simp add: cr)
  note row = createStatus_Inr [OF cr]
  from updateMonitor_Inr [OF up] obtain old where
    old: "monitors (between d1) ?mid = Some old"
    and db': "db' = (between d1)\<lparr> monitors := (monitors (between d1))(?mid \<mapsto>
        \<lparr> lastCheckAt = Some (io_now io), lastStatus = Some (p_status params),
          lastMessage = Some (p_message params),
          lastPing = (case p_ping params of None \<Rightarrow> lastPing old | Some p \<Rightarrow> Some p) \<rparr>) \<rparr>"
    by blast
  have "filter (\<lambda>r. row_monitorId r = ?mid) (statusHistory db') =
      filter (\<lambda>r. row_monitorId r = ?mid) (statusHistory d1)"
    using quiet_rows by (simp add: db' d1)
  also have "\<dots> = filter (\<lambda>r. row_monitorId r = ?mid) (statusHistory db) @ [row]"
    by (simp add: row(1) row(4))
  finally have rows: "filter (\<lambda>r. row_monitorId r = ?mid) (statusHistory db') =
      filter (\<lambda>r. row_monitorId r = ?mid) (statusHistory db) @ [row]" .
  have "\<forall>r \<in> set (filter (\<lambda>r. row_monitorId r = ?mid) (statusHistory db)).
      row_timestamp r < row_timestamp row"
    using clock by (simp add: row(5))
  with rows have recent: "mostRecentRow db' ?mid = Some row" by (rule mostRecentRow_last)
  have old': "monitors db ?mid = Some old" using quiet_monitor old by (simp add: d1)
  have mon: "monitors db' ?mid =
      Some \<lparr> lastCheckAt = Some (io_now io), lastStatus = Some (p_status params),
             lastMessage = Some (p_message params),
             lastPing = (case p_ping params of None \<Rightarrow> lastPing old | Some p \<Rightarrow> Some p) \<rparr>"
    by (simp add: db')
  show ?thesis
    using recent row(3) old' mon by (simp add: lastStatusOf_def)
qed

text \<open>The witness: between the two writes a row of another monitor is inserted.\<close>

theorem C3_record_success_witness:
  "map_option row_status (mostRecentRow (snd (recordMonitorStatusAmid
      \<lparr> io_newId = Inr ''0007000cd'', io_now = 1704067654290, io_createFails = False, io_updateFails = False \<rparr>
      \<lparr> p_monitorId = ''m1'', p_status = 0, p_message = ''timeout'', p_ping = None, p_details = None,
        p_monitorType = Some ''http'' \<rparr>
      (\<lambda>d. d\<lparr> statusHistory := statusHistory d @ [\<lparr> row_id = ''0007000ef'', row_monitorId = ''m2'',
          row_status = 1, row_message = None, row_ping = Some 3, row_details = None,
          row_timestamp = 1704067654292 \<rparr>] \<rparr>)
      \<lparr> statusHistory = [\<lparr> row_id = ''0006000ab'', row_monitorId = ''m1'', row_status = 1,
          row_message = None, row_ping = Some 12, row_details = None, row_timestamp = 1704067594290 \<rparr>],
        monitors = [''m1'' \<mapsto> \<lparr> lastCheckAt = Some 1704067594290,
          lastStatus = Some 1, lastMessage = Some ''OK'', lastPing = Some 12 \<rparr>] \<rparr>)) ''m1'') = Some 0
   \<and> monitors (snd (recordMonitorStatusAmid
      \<lparr> io_newId = Inr ''0007000cd'', io_now = 1704067654290, io_createFails = False, io_updateFails = False \<rparr>
      \<lparr> p_monitorId = ''m1'', p_status = 0, p_message = ''timeout'', p_ping = None, p_details = None,
        p_monitorType = Some ''http'' \<rparr>
      (\<lambda>d. d\<lparr> statusHistory := statusHistory d @ [\<lparr> row_id = ''0007000ef'', row_monitorId = ''m2'',
          row_status = 1, row_message = None, row_ping = Some 3, row_details = None,
          row_timestamp = 1704067654292 \<rparr>] \<rparr>)
      \<lparr> statusHistory = [\<lparr> row_id = ''0006000ab'', row_monitorId = ''m1'', row_status = 1,
          row_message = None, row_ping = Some 12, row_details = None, row_timestamp = 1704067594290 \<rparr>],
        monitors = [''m1'' \<mapsto> \<lparr> lastCheckAt = Some 1704067594290,
          lastStatus = Some 1, lastMessage = Some ''OK'', lastPing = Some 12 \<rparr>] \<rparr>)) ''m1''
     = Some \<lparr> lastCheckAt = Some 1704067654290, lastStatus = Some 0, lastMessage = Some ''timeout'',
              lastPing = Some 12 \<rparr>"
proof -
  let ?io = "\<lparr> io_newId = Inr ''0007000cd'', io_now = 1704067654290, io_createFails = False,
               io_updateFails = False \<rparr>"
  let ?params = "\<lparr> p_monitorId = ''m1'', p_status = 0, p_message = ''timeout'', p_ping = None,
                   p_details = None, p_monitorType = Some ''http'' \<rparr>"
  let ?between = "\<lambda>d. d\<lparr> statusHistory := statusHistory d @ [\<lparr> row_id = ''0007000ef'',
          row_monitorId = ''m2'', row_status = 1, row_message = None, row_ping = Some 3,
          row_details = None, row_timestamp = 1704067654292 \<rparr>] \<rparr>"
  let ?db = "\<lparr> statusHistory = [\<lparr> row_id = ''0006000ab'', row_monitorId = ''m1'', row_status = 1,
          row_message = None, row_ping = Some 12, row_details = None, row_timestamp = 1704067594290 \<rparr>],
        monitors = [''m1'' \<mapsto> \<lparr> lastCheckAt = Some 1704067594290,
          lastStatus = Some 1, lastMessage = Some ''OK'', lastPing = Some 12 \<rparr>] \<rparr>"
  let ?row = "\<lparr> row_id = ''0007000cd'', row_monitorId = ''m1'', row_status = 0,
          row_message = Some ''timeout'', row_ping = None, row_details = None,
          row_timestamp = 1704067654290 \<rparr>"
  have ok: "recordMonitorStatusAmid ?io ?params ?between ?db =
      (Inr ?row, snd (recordMonitorStatusAmid ?io ?params ?between ?db))"
    by (simp add: recorder_defs generateCompactMessage_def Let_def UP_def DOWN_def PENDING_def)
  have quiet_rows: "filter (\<lambda>r. row_monitorId r = p_monitorId ?params)
          (statusHistory (?between (snd (createStatus ?io ?params ?db))))
       = filter (\<lambda>r. row_monitorId r = p_monitorId ?params)
          (statusHistory (snd (createStatus ?io ?params ?db)))"
    by (simp add: createStatus_def Let_def)
  have quiet_monitor: "monitors (?between (snd (createStatus ?io ?params ?db))) (p_monitorId ?params)
       = monitors ?db (p_monitorId ?params)"
    by (simp add: createStatus_def Let_def)
  have clock: "\<forall>r \<in> set (statusHistory ?db).
      row_monitorId r = p_monitorId ?params \<longrightarrow> row_timestamp r < io_now ?io"
    by simp
  from C3_record_success [OF ok quiet_rows quiet_monitor clock]
  show ?thesis by auto
qed

section \<open>Properties of the number primitives and of the compact identifiers\<close>

lemma of_char_digit_char: "d < 36 \<Longrightarrow> (of_char (digit_char d) :: nat) = (if d < 10 then 48 + d else 87 + d)"
  by (simp add: digit_char_def)

lemma digit_val_digit_char: "d < 36 \<Longrightarrow> digit_val (digit_char d) = Some d"
  by (simp add: digit_val_def of_char_digit_char Let_def)

lemma is_09az_digit_char: "d < 36 \<Longrightarrow> is_09az (digit_char d)"
  by (simp add: is_09az_def of_char_digit_char Let_def)

lemma toStringRadix_length:
  "2 \<le> b \<Longrightarrow> 0 < k \<Longrightarrow> n < b ^ k \<Longrightarrow> length (toStringRadix b n) \<le> k"
proof (induction b n arbitrary: k rule: toStringRadix.induct)
  case (1 b n)
  show ?case
  proof (cases "n < b")
    case True
    then show ?thesis using "1.prems" by (simp add: toStringRadix.simps [of b n])
  next
    case False
    with "1.prems" obtain k' where k: "k = Suc k'" by (cases k) auto
    have "0 < k'"
    proof (rule ccontr)
      assume "\<not> 0 < k'"
      with k "1.prems" False show False by simp
    qed
    moreover have "n div b < b ^ k'"
      using "1.prems" k by (simp add: less_mult_imp_div_less mult.commute)
    ultimately have "length (toStringRadix b (n div b)) \<le> k'"
      using "1.IH" [of k'] False "1.prems" by simp
    then show ?thesis using False "1.prems" k by (simp add: toStringRadix.simps [of b n])
  qed
qed

lemma toStringRadix_09az: "list_all is_09az (toStringRadix 36 n)"
proof (induction "36::nat" n rule: toStringRadix.induct)
  case (1 n)
  show ?case
  proof (cases "n < 36")
    case True
    then show ?thesis by (simp add: toStringRadix.simps [of 36 n] is_09az_digit_char)
  next
    case False
    then show ?thesis using "1" by (simp add: toStringRadix.simps [of 36 n] is_09az_digit_char)
  qed
qed

lemma parse_digits_snoc:
  "list_all (\<lambda>c. \<exists>d. digit_val c = Some d \<and> d < b) s \<Longrightarrow> digit_val c = Some d \<Longrightarrow> d < b \<Longrightarrow>
   parse_digits b (s @ [c]) acc =
     Some ((case parse_digits b s acc of None \<Rightarrow> 0 | Some a \<Rightarrow> a) * b + d)"
  by (induction s arbitrary: acc) auto

lemma toStringRadix_digits:
  "2 \<le> b \<Longrightarrow> b \<le> 36 \<Longrightarrow> list_all (\<lambda>c. \<exists>d. digit_val c = Some d \<and> d < b) (toStringRadix b n)"
proof (induction b n rule: toStringRadix.induct)
  case (1 b n)
  show ?case
  proof (cases "n < b")
    case True
    with "1.prems" show ?thesis by (simp add: toStringRadix.simps [of b n] digit_val_digit_char)
  next
    case False
    have mb: "n mod b < b" using "1.prems" by simp
    with "1.prems" have m36: "n mod b < 36" by linarith
    have "list_all (\<lambda>c. \<exists>d. digit_val c = Some d \<and> d < b) (toStringRadix b (n div b))"
      using "1" False by simp
    then show ?thesis using False mb m36 "1.prems"
      by (simp add: toStringRadix.simps [of b n] digit_val_digit_char)
  qed
qed

lemma parse_digits_toStringRadix:
  "2 \<le> b \<Longrightarrow> b \<le> 36 \<Longrightarrow> parse_digits b (toStringRadix b n) None = Some n"
proof (induction b n rule: toStringRadix.induct)
  case (1 b n)
  show ?case
  proof (cases "n < b")
    case True
    with "1.prems" show ?thesis by (simp add: toStringRadix.simps [of b n] digit_val_digit_char)
  next
    case False
    have mb: "n mod b < b" using "1.prems" by simp
    with "1.prems" have m36: "n mod b < 36" by linarith
    note m = m36 mb
    have "parse_digits b (toStringRadix b (n div b) @ [digit_char (n mod b)]) None =
        Some ((case parse_digits b (toStringRadix b (n div b)) None of None \<Rightarrow> 0 | Some a \<Rightarrow> a) * b + n mod b)"
    proof -
      have dv: "digit_val (digit_char (n mod b)) = Some (n mod b)"
        using m36 by (rule digit_val_digit_char)
      have ds: "list_all (\<lambda>c. \<exists>d. digit_val c = Some d \<and> d < b) (toStringRadix b (n div b))"
        using "1.prems" by (rule toStringRadix_digits)
      show ?thesis by (rule parse_digits_snoc [OF ds dv mb])
    qed
    also have "parse_digits b (toStringRadix b (n div b)) None = Some (n div b)"
      using "1.IH" False "1.prems" by simp
    finally show ?thesis using False "1.prems" by (simp add: toStringRadix.simps [of b n])
  qed
qed

lemma digit_val_zero: "digit_val (CHR ''0'') = Some 0"
  by (simp add: digit_val_def)

lemma parse_digits_Some0:
  "list_all (\<lambda>c. \<exists>d. digit_val c = Some d \<and> d < b) s \<Longrightarrow> s \<noteq> [] \<Longrightarrow>
   parse_digits b s (Some 0) = parse_digits b s None"
  by (cases s) auto

lemma parse_digits_zeros:
  "2 \<le> b \<Longrightarrow> parse_digits b (replicate m (CHR ''0'') @ s) acc =
     parse_digits b s (if m = 0 then acc else Some ((case acc of None \<Rightarrow> 0 | Some a \<Rightarrow> a) * b ^ m))"
  by (induction m arbitrary: acc) (auto simp: digit_val_zero mult.assoc split: option.splits)

lemma toStringRadix_not_Nil: "toStringRadix b n \<noteq> []"
  by (simp add: toStringRadix.simps [of b n])

lemma parse_digits_padStart:
  assumes "2 \<le> b" "b \<le> 36"
  shows "parse_digits b (padStart k (CHR ''0'') (toStringRadix b n)) None = Some n"
proof -
  have "parse_digits b (padStart k (CHR ''0'') (toStringRadix b n)) None =
      parse_digits b (toStringRadix b n) (if k - length (toStringRadix b n) = 0 then None else Some 0)"
    using assms by (simp add: padStart_def parse_digits_zeros)
  also have "\<dots> = parse_digits b (toStringRadix b n) None"
    using assms by (simp add: parse_digits_Some0 toStringRadix_digits toStringRadix_not_Nil)
  finally show ?thesis using assms by (simp add: parse_digits_toStringRadix)
qed

lemma length_padStart:
  "length s \<le> k \<Longrightarrow> length (padStart k c s) = k"
  by (simp add: padStart_def)

lemma is_09az_zero: "is_09az (CHR ''0'')"
  by (simp add: is_09az_def)

lemma padStart_09az: "list_all is_09az s \<Longrightarrow> list_all is_09az (padStart k (CHR ''0'') s)"
  by (auto simp: padStart_def list_all_iff is_09az_zero)

lemma parseInt_36_code:
  "parseInt (padStart k (CHR ''0'') (toStringRadix 36 n)) (Some 36) = Some (int n)"
proof -
  let ?s = "padStart k (CHR ''0'') (toStringRadix 36 n)"
  have az: "list_all is_09az ?s" by (intro padStart_09az toStringRadix_09az)
  have ne: "?s \<noteq> []" by (simp add: padStart_def toStringRadix_not_Nil)
  then obtain c cs where s: "?s = c # cs" by (cases ?s) auto
  with az have c: "is_09az c" by simp
  then have "\<not> is_space c" "c \<noteq> CHR ''-''" "c \<noteq> CHR ''+''"
    by (auto simp: is_09az_def is_space_def Let_def)
  then have "dropWhile is_space ?s = ?s" "take 1 ?s \<noteq> ''-''" "take 1 ?s \<noteq> ''+''"
    using s by auto
  then show ?thesis
    by (simp add: parseInt_def Let_def parse_digits_padStart)
qed

lemma bucket_bounds:
  fixes rel :: int and units :: real
  assumes rel: "0 \<le> rel" "rel < THREE_YEARS_MS" and units: "0 < units"
  defines "u \<equiv> real_of_int THREE_YEARS_MS / units"
  defines "k \<equiv> \<lfloor>real_of_int rel / u\<rfloor>"
  shows "0 \<le> k" and "real_of_int k < units"
    and "truncate_ms (real_of_int BASE_TIME + real_of_int k * u) = BASE_TIME + \<lfloor>real_of_int k * u\<rfloor>"
    and "\<lfloor>real_of_int k * u\<rfloor> \<le> rel"
    and "real_of_int rel < real_of_int \<lfloor>real_of_int k * u\<rfloor> + u + 1"
proof -
  have H: "0 < real_of_int THREE_YEARS_MS" by (simp add: THREE_YEARS_MS_def)
  then have u: "0 < u" using units by (simp add: u_def)
  have q0: "0 \<le> real_of_int rel / u" using rel u by simp
  then show k0: "0 \<le> k" by (simp add: k_def)
  have "real_of_int rel / u < units"
  proof -
    have "real_of_int rel / u = real_of_int rel * units / real_of_int THREE_YEARS_MS"
      by (simp add: u_def)
    also have "\<dots> < real_of_int THREE_YEARS_MS * units / real_of_int THREE_YEARS_MS"
      using rel units H by (intro divide_strict_right_mono mult_strict_right_mono) auto
    also have "\<dots> = units" using H by simp
    finally show ?thesis .
  qed
  moreover have "real_of_int k \<le> real_of_int rel / u" by (simp add: k_def)
  ultimately show "real_of_int k < units" by linarith
  have lo: "real_of_int k * u \<le> real_of_int rel"
    using u by (simp add: k_def pos_le_divide_eq [symmetric])
  have hi: "real_of_int rel < (real_of_int k + 1) * u"
    using u by (simp add: k_def pos_divide_less_eq [symmetric])
  have ku0: "0 \<le> real_of_int k * u" using k0 u by simp
  have "0 \<le> real_of_int BASE_TIME" by (simp add: BASE_TIME_def)
  with ku0 have "truncate_ms (real_of_int BASE_TIME + real_of_int k * u)
      = \<lfloor>real_of_int BASE_TIME + real_of_int k * u\<rfloor>"
    by (simp add: truncate_ms_def)
  then show "truncate_ms (real_of_int BASE_TIME + real_of_int k * u) = BASE_TIME + \<lfloor>real_of_int k * u\<rfloor>"
    by simp
  show "\<lfloor>real_of_int k * u\<rfloor> \<le> rel" using lo by linarith
  have "real_of_int k * u < real_of_int \<lfloor>real_of_int k * u\<rfloor> + 1" by linarith
  with hi show "real_of_int rel < real_of_int \<lfloor>real_of_int k * u\<rfloor> + u + 1"
    by (simp add: algebra_simps)
qed

lemma extract_of_code:
  assumes k: "k = 4 \<or> k = 5 \<or> k = 6" and n: "n < 36 ^ k"
    and suf: "list_all is_09az suf" "length suf = 3"
  shows "extractTimeFromUltraCompactId (padStart k (CHR ''0'') (toStringRadix 36 n) @ suf) =
     Some (Date (truncate_ms (real_of_int BASE_TIME
        + real n * (real_of_int THREE_YEARS_MS / 36 ^ k))))"
proof -
  let ?code = "padStart k (CHR ''0'') (toStringRadix 36 n)"
  have "length (toStringRadix 36 n) \<le> k"
    using k by (intro toStringRadix_length [OF _ _ n]) auto
  then have len: "length ?code = k" by (rule length_padStart)
  have az: "list_all is_09az (?code @ suf)"
    using suf by (simp add: padStart_09az toStringRadix_09az)
  have ok: "isUltraCompactId (?code @ suf)"
    using k len suf az by (auto simp: isUltraCompactId_def)
  have tk: "take k (?code @ suf) = ?code" using len by simp
  have p: "parseInt ?code (Some 36) = Some (int n)" by (rule parseInt_36_code)
  from k show ?thesis
  proof (elim disjE)
    assume "k = 4"
    then show ?thesis using ok tk p len suf
      by (simp add: extractTimeFromUltraCompactId_def Let_def)
  next
    assume "k = 5"
    then show ?thesis using ok tk p len suf
      by (simp add: extractTimeFromUltraCompactId_def Let_def)
  next
    assume "k = 6"
    then show ?thesis using ok tk p len suf
      by (simp add: extractTimeFromUltraCompactId_def Let_def)
  qed
qed

lemma random3:
  fixes rnd :: real
  assumes "0 \<le> rnd" "rnd < 1"
  shows "length (padStart 3 (CHR ''0'') (toStringRadix 36 (nat \<lfloor>rnd * 36 * 36 * 36\<rfloor>))) = 3"
    and "list_all is_09az (padStart 3 (CHR ''0'') (toStringRadix 36 (nat \<lfloor>rnd * 36 * 36 * 36\<rfloor>)))"
proof -
  have "rnd * 36 * 36 * 36 < 46656" using assms by simp
  then have "\<lfloor>rnd * 36 * 36 * 36\<rfloor> < 46656" by linarith
  then have "nat \<lfloor>rnd * 36 * 36 * 36\<rfloor> < 46656" by linarith
  then have n: "nat \<lfloor>rnd * 36 * 36 * 36\<rfloor> < 36 ^ 3" by simp
  have "length (toStringRadix 36 (nat \<lfloor>rnd * 36 * 36 * 36\<rfloor>)) \<le> 3"
    by (rule toStringRadix_length [OF _ _ n]) simp_all
  then show "length (padStart 3 (CHR ''0'') (toStringRadix 36 (nat \<lfloor>rnd * 36 * 36 * 36\<rfloor>))) = 3"
    by (rule length_padStart)
  show "list_all is_09az (padStart 3 (CHR ''0'') (toStringRadix 36 (nat \<lfloor>rnd * 36 * 36 * 36\<rfloor>)))"
    by (intro padStart_09az toStringRadix_09az)
qed

lemma random2:
  fixes rnd :: real
  assumes "0 \<le> rnd" "rnd < 1"
  shows "length (padStart 2 (CHR ''0'') (toStringRadix 36 (nat \<lfloor>rnd * 36 * 36\<rfloor>))) = 2"
    and "list_all is_09az (padStart 2 (CHR ''0'') (toStringRadix 36 (nat \<lfloor>rnd * 36 * 36\<rfloor>)))"
proof -
  have "rnd * 36 * 36 < 1296" using assms by simp
  then have "\<lfloor>rnd * 36 * 36\<rfloor> < 1296" by linarith
  then have "nat \<lfloor>rnd * 36 * 36\<rfloor> < 1296" by linarith
  then have n: "nat \<lfloor>rnd * 36 * 36\<rfloor> < 36 ^ 2" by simp
  have "length (toStringRadix 36 (nat \<lfloor>rnd * 36 * 36\<rfloor>)) \<le> 2"
    by (rule toStringRadix_length [OF _ _ n]) simp_all
  then show "length (padStart 2 (CHR ''0'') (toStringRadix 36 (nat \<lfloor>rnd * 36 * 36\<rfloor>))) = 2"
    by (rule length_padStart)
  show "list_all is_09az (padStart 2 (CHR ''0'') (toStringRadix 36 (nat \<lfloor>rnd * 36 * 36\<rfloor>)))"
    by (intro padStart_09az toStringRadix_09az)
qed

lemma checksum1:
  "length (toStringRadix 36 (m mod 36)) = 1" "list_all is_09az (toStringRadix 36 (m mod 36))"
  by (simp_all add: toStringRadix.simps [of 36 "m mod 36"] is_09az_digit_char)

lemma gen_extract:
  fixes rel :: int
  assumes k: "k = 4 \<or> k = 5 \<or> k = 6" and rel: "0 \<le> rel" "rel < THREE_YEARS_MS"
    and suf: "list_all is_09az suf" "length suf = 3"
  defines "timeUnit \<equiv> \<lfloor>real_of_int rel / (real_of_int THREE_YEARS_MS / 36 ^ k)\<rfloor>"
  defines "ident \<equiv> padStart k (CHR ''0'') (toStringRadix 36 (nat timeUnit)) @ suf"
  shows "length ident = k + 3
      \<and> (\<exists>t'. extractTimeFromUltraCompactId ident = Some (Date t')
          \<and> t' \<le> BASE_TIME + rel
          \<and> real_of_int (BASE_TIME + rel) < real_of_int t' + real_of_int THREE_YEARS_MS / 36 ^ k + 1)"
proof -
  let ?u = "real_of_int THREE_YEARS_MS / 36 ^ k"
  have units: "(0::real) < 36 ^ k" by simp
  note b = bucket_bounds [OF rel units, folded timeUnit_def]
  have tu: "real (nat timeUnit) = real_of_int timeUnit" using b(1) by simp
  have "real (nat timeUnit) < 36 ^ k" using b(2) tu by simp
  then have n: "nat timeUnit < 36 ^ k"
    by (metis of_nat_less_iff of_nat_numeral of_nat_power)
  have "length (toStringRadix 36 (nat timeUnit)) \<le> k"
    using k by (intro toStringRadix_length [OF _ _ n]) auto
  then have "length (padStart k (CHR ''0'') (toStringRadix 36 (nat timeUnit))) = k"
    by (rule length_padStart)
  then have len: "length ident = k + 3" using suf by (simp add: ident_def)
  have ex: "extractTimeFromUltraCompactId ident =
      Some (Date (BASE_TIME + \<lfloor>real_of_int timeUnit * ?u\<rfloor>))"
    unfolding ident_def extract_of_code [OF k n suf] tu b(3) ..
  show ?thesis
  proof (intro conjI exI)
    show "length ident = k + 3" by (rule len)
    show "extractTimeFromUltraCompactId ident = Some (Date (BASE_TIME + \<lfloor>real_of_int timeUnit * ?u\<rfloor>))"
      by (rule ex)
    show "BASE_TIME + \<lfloor>real_of_int timeUnit * ?u\<rfloor> \<le> BASE_TIME + rel" using b(4) by simp
    show "real_of_int (BASE_TIME + rel)
        < real_of_int (BASE_TIME + \<lfloor>real_of_int timeUnit * ?u\<rfloor>) + ?u + 1"
      using b(5) by simp
  qed
qed

lemma generateUltraCompactId7_extract:
  fixes rnd :: real
  assumes t: "BASE_TIME \<le> now" "now < BASE_TIME + THREE_YEARS_MS" and r: "0 \<le> rnd" "rnd < 1"
  shows "\<exists>ident t'. generateUltraCompactId7 now rnd = Inr ident \<and> length ident = 7
      \<and> extractTimeFromUltraCompactId ident = Some (Date t')
      \<and> t' \<le> now \<and> real_of_int now < real_of_int t' + real_of_int THREE_YEARS_MS / 36 ^ 4 + 1"
proof -
  let ?suf = "padStart 3 (CHR ''0'') (toStringRadix 36 (nat \<lfloor>rnd * 36 * 36 * 36\<rfloor>))"
  have rel: "0 \<le> now - BASE_TIME" "now - BASE_TIME < THREE_YEARS_MS" using t by auto
  have e: "(36 * 36 * 36 * 36 :: real) = 36 ^ 4" by simp
  have g: "generateUltraCompactId7 now rnd =
      Inr (padStart 4 (CHR ''0'') (toStringRadix 36
         (nat \<lfloor>real_of_int (now - BASE_TIME) / (real_of_int THREE_YEARS_MS / 36 ^ 4)\<rfloor>)) @ ?suf)"
    unfolding generateUltraCompactId7_def Let_def e using rel by simp
  from gen_extract [of 4 "now - BASE_TIME" ?suf, OF _ rel random3(2) random3(1), OF _ r r]
  show ?thesis unfolding g by auto
qed

lemma generateUltraCompactId9_extract:
  fixes rnd :: real
  assumes t: "BASE_TIME \<le> now" "now < BASE_TIME + THREE_YEARS_MS" and r: "0 \<le> rnd" "rnd < 1"
  shows "\<exists>ident t'. generateUltraCompactId9 now rnd = Inr ident \<and> length ident = 9
      \<and> extractTimeFromUltraCompactId ident = Some (Date t')
      \<and> t' \<le> now \<and> real_of_int now < real_of_int t' + real_of_int THREE_YEARS_MS / 36 ^ 6 + 1"
proof -
  let ?suf = "padStart 3 (CHR ''0'') (toStringRadix 36 (nat \<lfloor>rnd * 36 * 36 * 36\<rfloor>))"
  have rel: "0 \<le> now - BASE_TIME" "now - BASE_TIME < THREE_YEARS_MS" using t by auto
  have e: "(36 * 36 * 36 * 36 * 36 * 36 :: real) = 36 ^ 6" by simp
  have g: "generateUltraCompactId9 now rnd =
      Inr (padStart 6 (CHR ''0'') (toStringRadix 36
         (nat \<lfloor>real_of_int (now - BASE_TIME) / (real_of_int THREE_YEARS_MS / 36 ^ 6)\<rfloor>)) @ ?suf)"
    unfolding generateUltraCompactId9_def Let_def e using rel by simp
  from gen_extract [of 6 "now - BASE_TIME" ?suf, OF _ rel random3(2) random3(1), OF _ r r]
  show ?thesis unfolding g by auto
qed

lemma generateUltraCompactId8_extract:
  fixes rnd :: real
  assumes t: "BASE_TIME \<le> now" "now < BASE_TIME + THREE_YEARS_MS" and r: "0 \<le> rnd" "rnd < 1"
  shows "\<exists>ident t'. generateUltraCompactId8 now rnd = Inr ident \<and> length ident = 8
      \<and> extractTimeFromUltraCompactId ident = Some (Date t')
      \<and> t' \<le> now \<and> real_of_int now < real_of_int t' + real_of_int THREE_YEARS_MS / 36 ^ 5 + 1"
proof -
  let ?tu = "\<lfloor>real_of_int (now - BASE_TIME) / (real_of_int THREE_YEARS_MS / 36 ^ 5)\<rfloor>"
  let ?random = "padStart 2 (CHR ''0'') (toStringRadix 36 (nat \<lfloor>rnd * 36 * 36\<rfloor>))"
  let ?checksum = "toStringRadix 36 ((nat ?tu + of_char (?random ! 0) + of_char (?random ! 1)) mod 36)"
  have rel: "0 \<le> now - BASE_TIME" "now - BASE_TIME < THREE_YEARS_MS" using t by auto
  have e: "(36 * 36 * 36 * 36 * 36 :: real) = 36 ^ 5" by simp
  have g: "generateUltraCompactId8 now rnd =
      Inr (padStart 5 (CHR ''0'') (toStringRadix 36 (nat ?tu)) @ (?random @ ?checksum))"
    unfolding generateUltraCompactId8_def Let_def e using rel by simp
  have s1: "list_all is_09az (?random @ ?checksum)"
    using random2(2) [OF r] checksum1(2) by simp
  have s2: "length (?random @ ?checksum) = 3"
    using random2(1) [OF r] checksum1(1) by simp
  from gen_extract [of 5 "now - BASE_TIME" "?random @ ?checksum", OF _ rel s1 s2]
  show ?thesis unfolding g by auto
qed

lemma digit_char_values:
  "digit_char 0 = CHR ''0''" "digit_char 1 = CHR ''1''" "digit_char 6 = CHR ''6''"
  "digit_char 18 = CHR ''i''" "digit_char (Suc 0) = CHR ''1''"
  "digit_char 2 = CHR ''2''" "digit_char 3 = CHR ''3''" "digit_char 5 = CHR ''5''"
  by code_simp+

lemma show_int_digit:
  assumes "0 \<le> i" "i < 10"
  shows "show_int i = [digit_char (nat i)]"
proof -
  have "nat i < 10" using assms by linarith
  then show ?thesis using assms by (simp add: show_int_def toStringRadix.simps [of 10 "nat i"])
qed

lemma replicate_small:
  "replicate 2 c = [c, c]" "replicate 3 c = [c, c, c]"
  by (simp_all add: numeral_2_eq_2 numeral_3_eq_3)

lemma code_0006: "padStart 4 (CHR ''0'') (toStringRadix 36 6) = ''0006''"
  by (simp add: toStringRadix.simps padStart_def digit_char_values replicate_small)

lemma code_000: "padStart 3 (CHR ''0'') (toStringRadix 36 0) = ''000''"
  by (simp add: toStringRadix.simps padStart_def digit_char_values replicate_small)

lemma extract_0006000:
  "extractTimeFromUltraCompactId ''0006000'' = Some (Date (BASE_TIME + 337962))"
  by (simp add: extractTimeFromUltraCompactId_def isUltraCompactId_def is_09az_def parseInt_def
      is_space_def hex_prefixed_def digit_val_def truncate_ms_def BASE_TIME_def THREE_YEARS_MS_def Let_def)

text \<open>
  C9 (as stated, refuted). An identifier generated 394290 ms after the epoch with random
  value 0 is \<open>0006000\<close>. Its extracted time is 337962 ms after the epoch: the start of
  bucket 6 is 337962.96 ms and a \<open>Date\<close> keeps whole milliseconds. The generation time is
  then later than the extracted time plus one bucket (56327.16 ms).
\<close>

theorem C9_bucket_bound_exceeded:
  "generateUltraCompactId7 (BASE_TIME + 394290) 0 = Inr ''0006000''
   \<and> extractTimeFromUltraCompactId ''0006000'' = Some (Date (BASE_TIME + 337962))
   \<and> real_of_int (BASE_TIME + 337962) + real_of_int THREE_YEARS_MS / 36 ^ 4
       < real_of_int (BASE_TIME + 394290)"
proof -
  have "\<lfloor>real_of_int 394290 / (real_of_int THREE_YEARS_MS / (36 * 36 * 36 * 36))\<rfloor> = 6"
    by (simp add: THREE_YEARS_MS_def)
  then have "generateUltraCompactId7 (BASE_TIME + 394290) 0 = Inr ''0006000''"
    using code_0006 code_000
    by (simp add: generateUltraCompactId7_def Let_def THREE_YEARS_MS_def)
  moreover have "real_of_int (BASE_TIME + 337962) + real_of_int THREE_YEARS_MS / 36 ^ 4
       < real_of_int (BASE_TIME + 394290)"
    by (simp add: THREE_YEARS_MS_def)
  ultimately show ?thesis using extract_0006000 by simp
qed

text \<open>
  The generators accept the last millisecond of the horizon (their test is \<open>>\<close>, not
  \<open>\<ge>\<close>): there the time prefix needs one more character, the 7-character generator
  returns 8 characters, and the extraction reads them in the 8-character format.
\<close>

lemma code_10000: "padStart 4 (CHR ''0'') (toStringRadix 36 1679616) = ''10000''"
  by (simp add: toStringRadix.simps padStart_def digit_char_values replicate_small)

lemma code_i00: "padStart 3 (CHR ''0'') (toStringRadix 36 23328) = ''i00''"
  by (simp add: toStringRadix.simps padStart_def digit_char_values replicate_small)

lemma generateUltraCompactId7_horizon_end:
  "generateUltraCompactId7 (BASE_TIME + THREE_YEARS_MS) (1 / 2) = Inr ''10000i00''
   \<and> extractTimeFromUltraCompactId ''10000i00'' = Some (Date (BASE_TIME + 2628000000))"
proof -
  have "\<lfloor>real_of_int THREE_YEARS_MS / (real_of_int THREE_YEARS_MS / (36 * 36 * 36 * 36))\<rfloor> = 1679616"
    by (simp add: THREE_YEARS_MS_def)
  moreover have "nat \<lfloor>(1 / 2 :: real) * 36 * 36 * 36\<rfloor> = 23328" by simp
  ultimately have "generateUltraCompactId7 (BASE_TIME + THREE_YEARS_MS) (1 / 2) = Inr ''10000i00''"
    using code_10000 code_i00
    by (simp add: generateUltraCompactId7_def Let_def THREE_YEARS_MS_def)
  moreover have "extractTimeFromUltraCompactId ''10000i00'' = Some (Date (BASE_TIME + 2628000000))"
    by (simp add: extractTimeFromUltraCompactId_def isUltraCompactId_def is_09az_def parseInt_def
      is_space_def hex_prefixed_def digit_val_def truncate_ms_def BASE_TIME_def THREE_YEARS_MS_def Let_def)
  ultimately show ?thesis by simp
qed

text \<open>
  The generator named for 6 characters joins a 3-character prefix and 2 random characters:
  its identifiers have 5 characters, and the extraction, which wants 6 to 9, returns null.
\<close>

lemma generateUltraCompactId6_five_characters:
  "generateUltraCompactId6 (BASE_TIME + 394290) 0 = Inr ''00000''
   \<and> extractTimeFromUltraCompactId ''00000'' = None"
proof -
  have "\<lfloor>real_of_int 394290 / (real_of_int THREE_YEARS_MS / (36 * 36 * 36))\<rfloor> = 0"
    by (simp add: THREE_YEARS_MS_def)
  then have "generateUltraCompactId6 (BASE_TIME + 394290) 0 = Inr ''00000''"
    by (simp add: generateUltraCompactId6_def Let_def THREE_YEARS_MS_def toStringRadix.simps
        padStart_def digit_char_values replicate_small)
  then show ?thesis by (simp add: extractTimeFromUltraCompactId_def isUltraCompactId_def)
qed

text \<open>
  C9 (amended). For every generation instant \<open>t\<close> from the epoch up to, but excluding, the
  end of the 3-year horizon, and every random value in \<open>[0, 1)\<close>, each of the 7-, 8- and
  9-character generators returns an identifier of that length whose extracted time \<open>t'\<close>
  satisfies \<open>t' \<le> t < t' + bucketDuration + 1 ms\<close>, the bucket duration being the horizon
  divided by 36 to the power of the length of the time prefix (4, 5, 6).
\<close>

theorem C9_extract_within_bucket:
  fixes rnd :: real
  assumes "BASE_TIME \<le> now" "now < BASE_TIME + THREE_YEARS_MS" "0 \<le> rnd" "rnd < 1"
  shows "(\<exists>ident t'. generateUltraCompactId7 now rnd = Inr ident \<and> length ident = 7
            \<and> extractTimeFromUltraCompactId ident = Some (Date t')
            \<and> t' \<le> now \<and> real_of_int now < real_of_int t' + real_of_int THREE_YEARS_MS / 36 ^ 4 + 1)
       \<and> (\<exists>ident t'. generateUltraCompactId8 now rnd = Inr ident \<and> length ident = 8
            \<and> extractTimeFromUltraCompactId ident = Some (Date t')
            \<and> t' \<le> now \<and> real_of_int now < real_of_int t' + real_of_int THREE_YEARS_MS / 36 ^ 5 + 1)
       \<and> (\<exists>ident t'. generateUltraCompactId9 now rnd = Inr ident \<and> length ident = 9
            \<and> extractTimeFromUltraCompactId ident = Some (Date t')
            \<and> t' \<le> now \<and> real_of_int now < real_of_int t' + real_of_int THREE_YEARS_MS / 36 ^ 6 + 1)"
  using generateUltraCompactId7_extract [OF assms] generateUltraCompactId8_extract [OF assms]
    generateUltraCompactId9_extract [OF assms]
  by blast

theorem C9_extract_within_bucket_witness:
  "(\<exists>ident t'. generateUltraCompactId7 (BASE_TIME + 394290) 0 = Inr ident \<and> length ident = 7
            \<and> extractTimeFromUltraCompactId ident = Some (Date t')
            \<and> t' \<le> BASE_TIME + 394290
            \<and> real_of_int (BASE_TIME + 394290) < real_of_int t' + real_of_int THREE_YEARS_MS / 36 ^ 4 + 1)
       \<and> (\<exists>ident t'. generateUltraCompactId8 (BASE_TIME + 394290) 0 = Inr ident \<and> length ident = 8
            \<and> extractTimeFromUltraCompactId ident = Some (Date t')
            \<and> t' \<le> BASE_TIME + 394290
            \<and> real_of_int (BASE_TIME + 394290) < real_of_int t' + real_of_int THREE_YEARS_MS / 36 ^ 5 + 1)
       \<and> (\<exists>ident t'. generateUltraCompactId9 (BASE_TIME + 394290) 0 = Inr ident \<and> length ident = 9
            \<and> extractTimeFromUltraCompactId ident = Some (Date t')
            \<and> t' \<le> BASE_TIME + 394290
            \<and> real_of_int (BASE_TIME + 394290) < real_of_int t' + real_of_int THREE_YEARS_MS / 36 ^ 6 + 1)"
proof -
  have h: "BASE_TIME \<le> BASE_TIME + 394290" "BASE_TIME + 394290 < BASE_TIME + THREE_YEARS_MS"
    "(0::real) \<le> 0" "(0::real) < 1"
    by (simp_all add: THREE_YEARS_MS_def)
  show ?thesis by (rule C9_extract_within_bucket [OF h])
qed

section \<open>Properties of the retry wrapper\<close>

lemma attempt_retries_0 [simp]: "attempt ck (monitor\<lparr> retries := r \<rparr>) n = attempt ck monitor n"
  by (simp add: attempt_def)

lemma retry_trace_retries_0 [simp]: "retry_trace (monitor\<lparr> retries := r \<rparr>) k = retry_trace monitor k"
  by (simp add: retry_trace_def)

lemma retry_trace_Suc:
  "retry_trace monitor (Suc k) = [Sleep (retryInterval monitor * 1000), Enter 0, Probe] @ retry_trace monitor k"
  by (simp add: retry_trace_def)

lemma executeMonitorCheck_no_retries:
  assumes "m_type monitor \<in> set supported_types" and "retries monitor \<le> 0"
  shows "executeMonitorCheck ck monitor s =
     (attempt ck monitor (calls s),
      s\<lparr> calls := calls s + 1, trace := trace s @ [Enter (retries monitor), Probe] \<rparr>)"
  using assms
  by (simp add: executeMonitorCheck.simps [of ck monitor s] attempt_def Let_def split: sum.splits)

lemma retryLoop_success:
  assumes sup: "m_type monitor \<in> set supported_types"
  shows "int (i + d) < retries monitor \<Longrightarrow>
         (\<forall>d' < d. status (attempt ck monitor (calls s + d')) \<noteq> 1) \<Longrightarrow>
         status (attempt ck monitor (calls s + d)) = 1 \<Longrightarrow>
         retryLoop ck monitor result i s =
           ((attempt ck monitor (calls s + d))\<lparr> message := MSG_RETRY_OK @ show_int (int (i + d) + 1) @ ''/''
               @ show_int (retries monitor) @ ''): '' @ message (attempt ck monitor (calls s + d)) \<rparr>,
            s\<lparr> calls := calls s + d + 1, trace := trace s @ retry_trace monitor (Suc d) \<rparr>)"
proof (induction d arbitrary: i s)
  case 0
  let ?s1 = "s\<lparr> trace := trace s @ [Sleep (retryInterval monitor * 1000)] \<rparr>"
  have inner: "executeMonitorCheck ck (monitor\<lparr> retries := 0 \<rparr>) ?s1 =
      (attempt ck monitor (calls s), ?s1\<lparr> calls := calls s + 1, trace := trace ?s1 @ [Enter 0, Probe] \<rparr>)"
    using sup by (simp add: executeMonitorCheck_no_retries)
  show ?case using "0.prems"
    by (simp add: retryLoop.simps [of ck monitor result i s] inner Let_def retry_trace_def)
next
  case (Suc d)
  let ?s1 = "s\<lparr> trace := trace s @ [Sleep (retryInterval monitor * 1000)] \<rparr>"
  let ?s2 = "?s1\<lparr> calls := calls s + 1, trace := trace ?s1 @ [Enter 0, Probe] \<rparr>"
  have inner: "executeMonitorCheck ck (monitor\<lparr> retries := 0 \<rparr>) ?s1 = (attempt ck monitor (calls s), ?s2)"
    using sup by (simp add: executeMonitorCheck_no_retries)
  have lt: "int i < retries monitor" using Suc.prems(1) by simp
  have first: "status (attempt ck monitor (calls s)) \<noteq> 1" using Suc.prems(2) by force
  have step: "retryLoop ck monitor result i s = retryLoop ck monitor result (i + 1) ?s2"
    using lt first by (simp add: retryLoop.simps [of ck monitor result i s] inner Let_def)
  have a: "int (i + 1 + d) < retries monitor" using Suc.prems(1) by simp
  have b: "\<forall>d' < d. status (attempt ck monitor (calls ?s2 + d')) \<noteq> 1"
  proof (intro allI impI)
    fix d' assume "d' < d"
    then have "Suc d' < Suc d" by simp
    with Suc.prems(2) have "status (attempt ck monitor (calls s + Suc d')) \<noteq> 1" by blast
    then show "status (attempt ck monitor (calls ?s2 + d')) \<noteq> 1" by simp
  qed
  have c: "status (attempt ck monitor (calls ?s2 + d)) = 1" using Suc.prems(3) by simp
  show ?case
    unfolding step Suc.IH [OF a b c]
    by (simp add: retry_trace_Suc [of monitor "Suc d"])
qed

lemma retryLoop_all_fail:
  assumes sup: "m_type monitor \<in> set supported_types"
  shows "nat (retries monitor) - i = n \<Longrightarrow>
         (\<forall>d < n. status (attempt ck monitor (calls s + d)) \<noteq> 1) \<Longrightarrow>
         retryLoop ck monitor result i s =
           (result\<lparr> message := MSG_RETRY @ show_int (retries monitor) @ MSG_STILL_FAILING @ message result \<rparr>,
            s\<lparr> calls := calls s + n, trace := trace s @ retry_trace monitor n \<rparr>)"
proof (induction n arbitrary: i s)
  case 0
  then have "\<not> int i < retries monitor" by linarith
  then show ?case
    by (simp add: retryLoop.simps [of ck monitor result i s] retry_trace_def)
next
  case (Suc n)
  let ?s1 = "s\<lparr> trace := trace s @ [Sleep (retryInterval monitor * 1000)] \<rparr>"
  let ?s2 = "?s1\<lparr> calls := calls s + 1, trace := trace ?s1 @ [Enter 0, Probe] \<rparr>"
  have inner: "executeMonitorCheck ck (monitor\<lparr> retries := 0 \<rparr>) ?s1 = (attempt ck monitor (calls s), ?s2)"
    using sup by (simp add: executeMonitorCheck_no_retries)
  have lt: "int i < retries monitor" using Suc.prems(1) by linarith
  have first: "status (attempt ck monitor (calls s)) \<noteq> 1" using Suc.prems(2) by force
  have step: "retryLoop ck monitor result i s = retryLoop ck monitor result (i + 1) ?s2"
    using lt first by (simp add: retryLoop.simps [of ck monitor result i s] inner Let_def)
  have a: "nat (retries monitor) - (i + 1) = n" using Suc.prems(1) by simp
  have b: "\<forall>d < n. status (attempt ck monitor (calls ?s2 + d)) \<noteq> 1"
  proof (intro allI impI)
    fix d assume "d < n"
    then have "Suc d < Suc n" by simp
    with Suc.prems(2) have "status (attempt ck monitor (calls s + Suc d)) \<noteq> 1" by blast
    then show "status (attempt ck monitor (calls ?s2 + d)) \<noteq> 1" by simp
  qed
  show ?case
    unfolding step Suc.IH [OF a b]
    by (simp add: retry_trace_Suc [of monitor n])
qed

lemma executeMonitorCheck_retry_success:
  assumes sup: "m_type monitor \<in> set supported_types"
    and first: "ck (m_type monitor) (m_config monitor) (calls s) = Inr r0" "status r0 = 0"
    and N: "retries monitor = int N"
    and k: "1 \<le> k" "k \<le> N"
    and fails: "\<forall>j. 1 \<le> j \<and> j < k \<longrightarrow> status (attempt ck monitor (calls s + j)) \<noteq> 1"
    and ok: "status (attempt ck monitor (calls s + k)) = 1"
  shows "executeMonitorCheck ck monitor s =
     ((attempt ck monitor (calls s + k))\<lparr> message := MSG_RETRY_OK @ show_int (int k) @ ''/''
         @ show_int (int N) @ ''): '' @ message (attempt ck monitor (calls s + k)) \<rparr>,
      s\<lparr> calls := calls s + 1 + k,
         trace := trace s @ [Enter (int N), Probe] @ retry_trace monitor k \<rparr>)"
proof -
  let ?s1 = "s\<lparr> calls := calls s + 1, trace := trace s @ [Enter (int N), Probe] \<rparr>"
  obtain d where d: "k = Suc d" using k by (cases k) auto
  have unfold: "executeMonitorCheck ck monitor s = retryLoop ck monitor r0 0 ?s1"
    using sup first N k by (simp add: executeMonitorCheck.simps [of ck monitor s] Let_def)
  have a: "int (0 + d) < retries monitor" using N k d by simp
  have b: "\<forall>d' < d. status (attempt ck monitor (calls ?s1 + d')) \<noteq> 1"
  proof (intro allI impI)
    fix d' assume "d' < d"
    then have "1 \<le> Suc d' \<and> Suc d' < k" using d by simp
    with fails have "status (attempt ck monitor (calls s + Suc d')) \<noteq> 1" by blast
    then show "status (attempt ck monitor (calls ?s1 + d')) \<noteq> 1" by simp
  qed
  have c: "status (attempt ck monitor (calls ?s1 + d)) = 1" using ok d by simp
  show ?thesis
    unfolding unfold retryLoop_success [OF sup a b c]
    using d N by (simp add: add.commute)
qed

lemma executeMonitorCheck_retry_all_fail:
  assumes sup: "m_type monitor \<in> set supported_types"
    and first: "ck (m_type monitor) (m_config monitor) (calls s) = Inr r0" "status r0 = 0"
    and N: "retries monitor = int N" "0 < N"
    and fails: "\<forall>j. 1 \<le> j \<and> j \<le> N \<longrightarrow> status (attempt ck monitor (calls s + j)) \<noteq> 1"
  shows "executeMonitorCheck ck monitor s =
     (r0\<lparr> message := MSG_RETRY @ show_int (int N) @ MSG_STILL_FAILING @ message r0 \<rparr>,
      s\<lparr> calls := calls s + 1 + N,
         trace := trace s @ [Enter (int N), Probe] @ retry_trace monitor N \<rparr>)"
proof -
  let ?s1 = "s\<lparr> calls := calls s + 1, trace := trace s @ [Enter (int N), Probe] \<rparr>"
  have unfold: "executeMonitorCheck ck monitor s = retryLoop ck monitor r0 0 ?s1"
    using sup first N by (simp add: executeMonitorCheck.simps [of ck monitor s] Let_def)
  have a: "nat (retries monitor) - 0 = N" using N by simp
  have b: "\<forall>d < N. status (attempt ck monitor (calls ?s1 + d)) \<noteq> 1"
  proof (intro allI impI)
    fix d assume "d < N"
    then have "1 \<le> Suc d \<and> Suc d \<le> N" by simp
    with fails have "status (attempt ck monitor (calls s + Suc d)) \<noteq> 1" by blast
    then show "status (attempt ck monitor (calls ?s1 + d)) \<noteq> 1" by simp
  qed
  show ?thesis
    unfolding unfold retryLoop_all_fail [OF sup a b]
    using N by simp
qed

text \<open>
  C2. For a monitor of a supported type: with \<open>retries = 0\<close> exactly one executor call is
  made and its result returned. With \<open>retries = N > 0\<close> and a first result that is DOWN, the
  wrapper pauses \<open>retryInterval\<close> seconds before each retry and runs it as an invocation with
  \<open>retries = 0\<close>; if retry \<open>k\<close> (counted from 1) is the first whose status is UP, the result
  is that retry's result with the message "retry succeeded (k/N): " before its message,
  after \<open>k\<close> retries; if none of the \<open>N\<close> retries is UP, the result is the first result with
  the message "retry N times later still failing: " before its message, after \<open>N\<close> retries.
\<close>

theorem C2_retry_wrapper:
  assumes sup: "m_type monitor \<in> set supported_types"
  shows "(retries monitor = 0 \<longrightarrow>
            executeMonitorCheck ck monitor s =
              (attempt ck monitor (calls s),
               s\<lparr> calls := calls s + 1, trace := trace s @ [Enter 0, Probe] \<rparr>))
       \<and> (retries monitor = int N \<and> 0 < N
            \<and> ck (m_type monitor) (m_config monitor) (calls s) = Inr r0 \<and> status r0 = 0 \<longrightarrow>
            (1 \<le> k \<and> k \<le> N
               \<and> (\<forall>j. 1 \<le> j \<and> j < k \<longrightarrow> status (attempt ck monitor (calls s + j)) \<noteq> 1)
               \<and> status (attempt ck monitor (calls s + k)) = 1 \<longrightarrow>
               executeMonitorCheck ck monitor s =
                 ((attempt ck monitor (calls s + k))\<lparr> message := MSG_RETRY_OK @ show_int (int k) @ ''/''
                     @ show_int (int N) @ ''): '' @ message (attempt ck monitor (calls s + k)) \<rparr>,
                  s\<lparr> calls := calls s + 1 + k,
                     trace := trace s @ [Enter (int N), Probe] @ retry_trace monitor k \<rparr>))
          \<and> ((\<forall>j. 1 \<le> j \<and> j \<le> N \<longrightarrow> status (attempt ck monitor (calls s + j)) \<noteq> 1) \<longrightarrow>
               executeMonitorCheck ck monitor s =
                 (r0\<lparr> message := MSG_RETRY @ show_int (int N) @ MSG_STILL_FAILING @ message r0 \<rparr>,
                  s\<lparr> calls := calls s + 1 + N,
                     trace := trace s @ [Enter (int N), Probe] @ retry_trace monitor N \<rparr>)))"
proof (intro conjI impI)
  assume "retries monitor = 0"
  then show "executeMonitorCheck ck monitor s =
      (attempt ck monitor (calls s), s\<lparr> calls := calls s + 1, trace := trace s @ [Enter 0, Probe] \<rparr>)"
    using executeMonitorCheck_no_retries [OF sup, of ck s] by simp
next
  assume h: "retries monitor = int N \<and> 0 < N
      \<and> ck (m_type monitor) (m_config monitor) (calls s) = Inr r0 \<and> status r0 = 0"
    and g: "1 \<le> k \<and> k \<le> N
      \<and> (\<forall>j. 1 \<le> j \<and> j < k \<longrightarrow> status (attempt ck monitor (calls s + j)) \<noteq> 1)
      \<and> status (attempt ck monitor (calls s + k)) = 1"
  show "executeMonitorCheck ck monitor s =
      ((attempt ck monitor (calls s + k))\<lparr> message := MSG_RETRY_OK @ show_int (int k) @ ''/''
          @ show_int (int N) @ ''): '' @ message (attempt ck monitor (calls s + k)) \<rparr>,
       s\<lparr> calls := calls s + 1 + k,
          trace := trace s @ [Enter (int N), Probe] @ retry_trace monitor k \<rparr>)"
    using h g by (intro executeMonitorCheck_retry_success [OF sup]) auto
next
  assume h: "retries monitor = int N \<and> 0 < N
      \<and> ck (m_type monitor) (m_config monitor) (calls s) = Inr r0 \<and> status r0 = 0"
    and g: "\<forall>j. 1 \<le> j \<and> j \<le> N \<longrightarrow> status (attempt ck monitor (calls s + j)) \<noteq> 1"
  show "executeMonitorCheck ck monitor s =
      (r0\<lparr> message := MSG_RETRY @ show_int (int N) @ MSG_STILL_FAILING @ message r0 \<rparr>,
       s\<lparr> calls := calls s + 1 + N,
          trace := trace s @ [Enter (int N), Probe] @ retry_trace monitor N \<rparr>)"
    using h g by (intro executeMonitorCheck_retry_all_fail [OF sup]) auto
qed

theorem C2_retry_wrapper_witness:
  "executeMonitorCheck
     (\<lambda>t (c :: unit) n. if n = 2 then Inr \<lparr> status = 1, message = ''200 OK'', ping = Some 12, details = None \<rparr>
                        else Inr \<lparr> status = 0, message = ''500'', ping = None, details = None \<rparr>)
     \<lparr> m_type = ''http'', m_config = (), retries = 3, retryInterval = 5 \<rparr>
     \<lparr> calls = 0, trace = [] \<rparr>
   = (\<lparr> status = 1, message = MSG_RETRY_OK @ ''2/3): 200 OK'', ping = Some 12, details = None \<rparr>,
      \<lparr> calls = 3, trace = [Enter 3, Probe, Sleep 5000, Enter 0, Probe, Sleep 5000, Enter 0, Probe] \<rparr>)"
proof -
  let ?down = "\<lparr> status = 0, message = ''500'', ping = None, details = None \<rparr>"
  let ?ck = "\<lambda>(t :: string) (c :: unit) (n :: nat).
      if n = 2 then (Inr \<lparr> status = 1, message = ''200 OK'', ping = Some 12, details = None \<rparr> :: exn + CheckResult)
      else Inr ?down"
  let ?m = "\<lparr> m_type = ''http'', m_config = (), retries = 3, retryInterval = 5 \<rparr>"
  let ?s = "\<lparr> calls = 0, trace = [] \<rparr>"
  have sup: "m_type ?m \<in> set supported_types" by (simp add: supported_types_def)
  have h1: "retries ?m = int 3 \<and> 0 < (3::nat)
      \<and> ?ck (m_type ?m) (m_config ?m) (calls ?s) = Inr ?down \<and> status ?down = 0"
    by simp
  have h2: "1 \<le> (2::nat) \<and> 2 \<le> (3::nat)
      \<and> (\<forall>j. 1 \<le> j \<and> j < 2 \<longrightarrow> status (attempt ?ck ?m (calls ?s + j)) \<noteq> 1)
      \<and> status (attempt ?ck ?m (calls ?s + 2)) = 1"
    by (auto simp: attempt_def)
  from C2_retry_wrapper [OF sup, of ?ck ?s 3 ?down 2] h1 h2
  have "executeMonitorCheck ?ck ?m ?s =
      ((attempt ?ck ?m (calls ?s + 2))\<lparr> message := MSG_RETRY_OK @ show_int (int 2) @ ''/''
          @ show_int (int 3) @ ''): '' @ message (attempt ?ck ?m (calls ?s + 2)) \<rparr>,
       ?s\<lparr> calls := calls ?s + 1 + 2,
          trace := trace ?s @ [Enter (int 3), Probe] @ retry_trace ?m 2 \<rparr>)"
    by blast
  then show ?thesis
    by (simp add: attempt_def retry_trace_def show_int_digit digit_char_values replicate_small)
qed

section \<open>Properties of the ICMP and database executors\<close>

lemma checkIcmpSingle_status:
  "status (checkIcmpSingle fmt config probe) = UP \<or> status (checkIcmpSingle fmt config probe) = DOWN"
  by (simp add: checkIcmpSingle_def Let_def split: sum.splits)

lemma checkIcmpSingle_up_iff:
  "status (checkIcmpSingle fmt config probe) = UP \<longleftrightarrow>
     (\<exists>r. probe = Inr r \<and> alive r
        \<and> \<not> (truthy (maxResponseTime config) \<and> truthy (time r)
              \<and> the (time r) > the (maxResponseTime config)))"
  by (auto simp: checkIcmpSingle_def Let_def UP_def DOWN_def split: sum.splits)

text \<open>Neither the configured loss threshold nor the measured loss reaches the result.\<close>

lemma checkIcmpSingle_ignores_packet_loss:
  "checkIcmpSingle fmt (config\<lparr> maxPacketLoss := l \<rparr>) (Inr (r\<lparr> packetLoss := p \<rparr>))
     = checkIcmpSingle fmt config (Inr r)"
  by (simp add: checkIcmpSingle_def Let_def)

text \<open>
  C7 (the code departs from the claim). With \<open>maxPacketLoss = 0\<close> and no response-time
  threshold, a host that answers with 50 percent of the packets lost is reported UP, where
  the rule of the specification makes it DOWN.
\<close>

theorem C7_packet_loss_ignored:
  "status (checkIcmpSingle (\<lambda>x. ''5'')
      \<lparr> icmp_hostname = ''10.0.0.1'', packetCount = Some 4, maxPacketLoss = Some 0, maxResponseTime = None \<rparr>
      (Inr \<lparr> alive = True, time = Some 5, packetLoss = 50 \<rparr>)) = UP
   \<and> \<not> spec_icmp_up
      \<lparr> icmp_hostname = ''10.0.0.1'', packetCount = Some 4, maxPacketLoss = Some 0, maxResponseTime = None \<rparr>
      \<lparr> alive = True, time = Some 5, packetLoss = 50 \<rparr>"
  by (simp add: checkIcmpSingle_def spec_icmp_up_def truthy_def Let_def)






section \<open>Properties of the notification engine\<close>

lemma minutesBetween_div: "minutesBetween now t = (now - t) div 60000"
proof -
  have "real_of_int (now - t) / 1000 / 60 = real_of_int (now - t) / real_of_int 60000" by simp
  then show ?thesis
    unfolding minutesBetween_def by (simp only: floor_divide_of_int_eq)
qed

lemma dispatch_sent:
  "sent (dispatch env label d chs st) = sent st @ map (\<lambda>ch. (ch, d)) (filter ch_enabled chs)"
  by (induction chs arbitrary: st) (auto simp: Let_def split: option.splits)

lemma dispatch_errorLog:
  "errorLog (dispatch env label d chs st) =
     errorLog st @ map (\<lambda>ch. LOG_TO @ ch_name ch @ ''('' @ ch_type ch @ '')'' @ label @ the (sendFails env ch))
                       (filter (\<lambda>ch. ch_enabled ch \<and> sendFails env ch \<noteq> None) chs)"
  by (induction chs arbitrary: st) (auto simp: Let_def split: option.splits)

lemma dispatch_emitted [simp]: "emitted (dispatch env label d chs st) = emitted st"
  by (induction chs arbitrary: st) (auto simp: Let_def split: option.splits)

lemma dispatch_cache [simp]: "notificationCache (dispatch env label d chs st) = notificationCache st"
  by (induction chs arbitrary: st) (auto simp: Let_def split: option.splits)

lemma emit_emitted [simp]: "emitted (emit env label monitor mid d code st) = emitted st @ [d]"
  by (simp add: emit_def Let_def)

lemma emit_cache [simp]:
  "notificationCache (emit env label monitor mid d code st) mid = Some \<lparr> c_time = env_now env, c_status = code \<rparr>"
  by (simp add: emit_def Let_def)

lemma emit_sent:
  "sent (emit env label monitor mid d code st) =
     sent st @ map (\<lambda>ch. (ch, d)) (filter ch_enabled (notificationBindings monitor))"
  by (simp add: emit_def Let_def dispatch_sent)

lemma sendStatusChangeNotifications_returns:
  "\<exists>st'. sendStatusChangeNotifications env db mid code msg prev st = Inr st'"
  by (simp add: sendStatusChangeNotifications_def split: sum.splits)

text \<open>
  C10. The entry point never rejects: whatever the inputs, it returns an engine. An error
  thrown in its body (a rejected repository query) ends as one line of the error log, and so
  does a missing monitor. In the loop over the bindings every enabled channel gets its
  dispatch attempt, in order, whichever of them throw, and each error thrown is logged with
  the channel's name and type.
\<close>

theorem C10_never_throws:
  "(\<exists>st'. sendStatusChangeNotifications env db mid code msg prev st = Inr st')
   \<and> (notifyBody env db mid code msg prev st = Inl e \<longrightarrow>
        sendStatusChangeNotifications env db mid code msg prev st =
          Inr (st\<lparr> errorLog := errorLog st @ [LOG_HANDLER_1 @ mid @ LOG_HANDLER_2 @ e] \<rparr>))
   \<and> (queryFails env Q_findMonitor = Some e \<longrightarrow> notifyBody env db mid code msg prev st = Inl e)
   \<and> (queryFails env Q_findMonitor = None \<and> repo_monitors db mid = None \<longrightarrow>
        sendStatusChangeNotifications env db mid code msg prev st =
          Inr (st\<lparr> errorLog := errorLog st @ [LOG_NOT_FOUND @ mid] \<rparr>))
   \<and> sent (dispatch env label d chs st) = sent st @ map (\<lambda>ch. (ch, d)) (filter ch_enabled chs)
   \<and> errorLog (dispatch env label d chs st) =
        errorLog st @ map (\<lambda>ch. LOG_TO @ ch_name ch @ ''('' @ ch_type ch @ '')'' @ label @ the (sendFails env ch))
                          (filter (\<lambda>ch. ch_enabled ch \<and> sendFails env ch \<noteq> None) chs)"
proof (intro conjI impI)
  show "\<exists>st'. sendStatusChangeNotifications env db mid code msg prev st = Inr st'"
    by (rule sendStatusChangeNotifications_returns)
  show "sent (dispatch env label d chs st) = sent st @ map (\<lambda>ch. (ch, d)) (filter ch_enabled chs)"
    by (rule dispatch_sent)
  show "errorLog (dispatch env label d chs st) =
        errorLog st @ map (\<lambda>ch. LOG_TO @ ch_name ch @ ''('' @ ch_type ch @ '')'' @ label @ the (sendFails env ch))
                          (filter (\<lambda>ch. ch_enabled ch \<and> sendFails env ch \<noteq> None) chs)"
    by (rule dispatch_errorLog)
next
  assume "notifyBody env db mid code msg prev st = Inl e"
  then show "sendStatusChangeNotifications env db mid code msg prev st =
      Inr (st\<lparr> errorLog := errorLog st @ [LOG_HANDLER_1 @ mid @ LOG_HANDLER_2 @ e] \<rparr>)"
    by (simp add: sendStatusChangeNotifications_def)
next
  assume "queryFails env Q_findMonitor = Some e"
  then show "notifyBody env db mid code msg prev st = Inl e"
    by (simp add: notifyBody_def)
next
  assume "queryFails env Q_findMonitor = None \<and> repo_monitors db mid = None"
  then show "sendStatusChangeNotifications env db mid code msg prev st =
      Inr (st\<lparr> errorLog := errorLog st @ [LOG_NOT_FOUND @ mid] \<rparr>)"
    by (simp add: sendStatusChangeNotifications_def notifyBody_def)
qed

theorem C10_never_throws_witness:
  "sendStatusChangeNotifications
     \<lparr> env_now = 1704067594290, formatDateTime = (\<lambda>t. ''2024-01-01 00:06:34''),
       queryFails = (\<lambda>q. if q = Q_findMonitor then Some ''connection lost'' else None),
       sendFails = (\<lambda>ch. None) \<rparr>
     \<lparr> repo_monitors = Map.empty, repo_history = [] \<rparr> ''m1'' 0 ''timeout'' None
     \<lparr> notificationCache = Map.empty, emitted = [], sent = [], errorLog = [] \<rparr>
   = Inr \<lparr> notificationCache = Map.empty, emitted = [], sent = [],
           errorLog = [LOG_HANDLER_1 @ ''m1'' @ LOG_HANDLER_2 @ ''connection lost''] \<rparr>"
  using C10_never_throws [of
     "\<lparr> env_now = 1704067594290, formatDateTime = (\<lambda>t. ''2024-01-01 00:06:34''),
       queryFails = (\<lambda>q. if q = Q_findMonitor then Some ''connection lost'' else None),
       sendFails = (\<lambda>ch. None) \<rparr>"
     "\<lparr> repo_monitors = Map.empty, repo_history = [] \<rparr>" "''m1''" 0 "''timeout''" None
     "\<lparr> notificationCache = Map.empty, emitted = [], sent = [], errorLog = [] \<rparr>"
     "''connection lost''"]
  by simp

text \<open>With a previous status equal to the new one the call does nothing, whatever the branch
  for the new status would decide.\<close>

lemma no_transition_no_emit:
  assumes "queryFails env Q_findMonitor = None" "repo_monitors db mid = Some monitor"
  shows "sendStatusChangeNotifications env db mid code msg (Some code) st = Inr st"
  using assms
  by (simp add: sendStatusChangeNotifications_def notifyBody_def realPrevStatus_def Let_def)

lemma scenario_rows_since:
  "length (downRowsAfter scenario_repo ''m1'' 1704067200010) = 2"
  by (simp add: downRowsAfter_def monitorRows_def scenario_repo_def scenario_row_def)

lemma aggregate_no_query_failure:
  assumes "queryFails env = (\<lambda>q. None)"
  shows "aggregate env db mid monitor nd st =
     Inr (emit env LOG_DOWN_FAILED monitor mid (aggregatedData env db mid nd) 0 st)"
  using assms by (simp add: aggregate_def)

lemma aggregate_Inr:
  assumes "aggregate env db mid monitor nd st = Inr st'"
  shows "st' = emit env LOG_DOWN_FAILED monitor mid (aggregatedData env db mid nd) 0 st"
  using assms by (simp add: aggregate_def split: option.splits)

lemma downBranch_emitted:
  assumes "downBranch env db mid monitor nd st = Inr st'" "emitted st' \<noteq> emitted st"
  shows "st' = emit env LOG_DOWN_FAILED monitor mid (aggregatedData env db mid nd) 0 st"
proof -
  from assms have "aggregate env db mid monitor nd st = Inr st'"
    by (simp add: downBranch_def Let_def split: if_splits option.splits)
  then show ?thesis by (rule aggregate_Inr)
qed

lemma notifyBody_emitted_down:
  assumes body: "notifyBody env db mid 0 msg prev st = Inr st'" and em: "emitted st' \<noteq> emitted st"
  shows "\<exists>monitor. repo_monitors db mid = Some monitor
           \<and> downBranch env db mid monitor (baseData env monitor 0 msg) st = Inr st'"
proof (cases "queryFails env Q_findMonitor")
  case (Some e)
  then show ?thesis using body by (simp add: notifyBody_def)
next
  case q: None
  show ?thesis
  proof (cases "repo_monitors db mid")
    case None
    then show ?thesis using body em q by (auto simp: notifyBody_def)
  next
    case (Some monitor)
    then show ?thesis using body em q
      by (auto simp: notifyBody_def Let_def split: if_splits)
  qed
qed

lemma sendStatusChangeNotifications_emitted:
  assumes run: "sendStatusChangeNotifications env db mid code msg prev st = Inr st'"
    and em: "emitted st' \<noteq> emitted st"
  shows "notifyBody env db mid code msg prev st = Inr st'"
proof (cases "notifyBody env db mid code msg prev st")
  case (Inl e)
  then show ?thesis using run em by (auto simp: sendStatusChangeNotifications_def)
next
  case (Inr s)
  then show ?thesis using run by (simp add: sendStatusChangeNotifications_def)
qed

lemma least_None [simp]: "least xs = None \<longleftrightarrow> xs = []"
  by (cases xs) (auto split: option.splits)

lemma greatest_None [simp]: "greatest xs = None \<longleftrightarrow> xs = []"
  by (cases xs) (auto split: option.splits)

text \<open>The earliest and the most recent timestamp are what the two folds return.\<close>

lemma least_is_min:
  "least xs = Some m \<Longrightarrow> m \<in> set xs \<and> (\<forall>x \<in> set xs. m \<le> x)"
proof (induction xs arbitrary: m)
  case Nil
  then show ?case by simp
next
  case (Cons a xs)
  show ?case
  proof (cases "least xs")
    case None
    then show ?thesis using Cons.prems by simp
  next
    case (Some y)
    from Cons.IH [OF Some] have y: "y \<in> set xs" "\<forall>x \<in> set xs. y \<le> x" by auto
    from Cons.prems Some have "m = min a y" by simp
    then show ?thesis using y by (auto simp: min_def)
  qed
qed

lemma greatest_is_max:
  "greatest xs = Some m \<Longrightarrow> m \<in> set xs \<and> (\<forall>x \<in> set xs. x \<le> m)"
proof (induction xs arbitrary: m)
  case Nil
  then show ?case by simp
next
  case (Cons a xs)
  show ?case
  proof (cases "greatest xs")
    case None
    then show ?thesis using Cons.prems by simp
  next
    case (Some y)
    from Cons.IH [OF Some] have y: "y \<in> set xs" "\<forall>x \<in> set xs. x \<le> y" by auto
    from Cons.prems Some have "m = max a y" by simp
    then show ?thesis using y by (auto simp: max_def)
  qed
qed

text \<open>What the queries of the aggregation return, in the words of the specification.\<close>

lemma downRowsAfter_failuresSince: "downRowsAfter db mid t = failuresSince db mid t"
  by (simp add: downRowsAfter_def monitorRows_def failuresSince_def)

lemma lastSuccessTime_isFailureStart:
  "isFailureStart db mid (case lastSuccessTime db mid of None \<Rightarrow> 0 | Some t \<Rightarrow> t)"
proof -
  let ?ups = "filter (\<lambda>r. row_monitorId r = mid \<and> row_status r = 1) (repo_history db)"
  have l: "lastSuccessTime db mid = greatest (map row_timestamp ?ups)"
    by (simp add: lastSuccessTime_def monitorRows_def)
  show ?thesis
  proof (cases "greatest (map row_timestamp ?ups)")
    case None
    then have "?ups = []" by simp
    then show ?thesis by (simp add: isFailureStart_def l None)
  next
    case (Some m)
    then have ne: "?ups \<noteq> []" by auto
    from greatest_is_max [OF Some]
    have "(\<exists>u \<in> set ?ups. row_timestamp u = m) \<and> (\<forall>u \<in> set ?ups. row_timestamp u \<le> m)" by auto
    with ne show ?thesis by (simp add: isFailureStart_def l Some)
  qed
qed

lemma firstFailureAfter_isEarliest:
  "firstFailureAfter db mid start = Some t \<Longrightarrow> isEarliest (failuresSince db mid start) t"
  using least_is_min [of "map row_timestamp (failuresSince db mid start)" t]
  by (auto simp: firstFailureAfter_def downRowsAfter_failuresSince isEarliest_def)

lemma firstFailureAfter_None:
  "firstFailureAfter db mid start = None \<longleftrightarrow> failuresSince db mid start = []"
  by (simp add: firstFailureAfter_def downRowsAfter_failuresSince)

text \<open>
  C5. Whenever a call for DOWN emits, the payload is the aggregated one: there is a start
  of the run of failures, the timestamp of the monitor's most recent UP row (0 if it has
  none); \<open>failureCount\<close> is the number of the monitor's DOWN rows strictly later than the
  start; the first failure is the earliest of these rows, \<open>firstFailureTime\<close> is its
  formatted timestamp and \<open>failureDuration\<close> the whole minutes from it to now; the message
  is the line "failed N times in a row, first failure at T, lasting D minutes" and a line
  feed before the message with its address line; every enabled channel is dispatched to;
  and the cache holds (now, DOWN). When no DOWN row follows the start, T is "unknown" and
  D is 0.
\<close>

theorem C5_aggregated_down:
  assumes run: "sendStatusChangeNotifications env db mid 0 msg prev st = Inr st'"
    and em: "emitted st' \<noteq> emitted st"
  shows "\<exists>monitor d start T D. repo_monitors db mid = Some monitor
       \<and> emitted st' = emitted st @ [d]
       \<and> statusCode d = 0
       \<and> isFailureStart db mid start
       \<and> failureCount d = Some (int (length (failuresSince db mid start)))
       \<and> (if failuresSince db mid start = [] then T = STATUS_TEXT_UNKNOWN \<and> D = 0
           else \<exists>t. isEarliest (failuresSince db mid start) t
                  \<and> T = formatDateTime env (Some t) \<and> D = (env_now env - t) div 60000)
       \<and> firstFailureTime d = Some T
       \<and> failureDuration d = Some D
       \<and> nd_message d = MSG_FAILED_1 @ show_int (int (length (failuresSince db mid start))) @ MSG_FAILED_2
            @ T @ MSG_FAILED_3 @ show_int D @ MSG_FAILED_4 @ [CHR 0x0A]
            @ withAddress (nm_config monitor) (if msg = [] then MSG_NO_DETAILS else msg)
       \<and> sent st' = sent st @ map (\<lambda>ch. (ch, d)) (filter ch_enabled (notificationBindings monitor))
       \<and> notificationCache st' mid = Some \<lparr> c_time = env_now env, c_status = 0 \<rparr>"
proof -
  from run em have "notifyBody env db mid 0 msg prev st = Inr st'"
    by (rule sendStatusChangeNotifications_emitted)
  from notifyBody_emitted_down [OF this em] obtain monitor where
    m: "repo_monitors db mid = Some monitor"
    and b: "downBranch env db mid monitor (baseData env monitor 0 msg) st = Inr st'" by blast
  let ?d = "aggregatedData env db mid (baseData env monitor 0 msg)"
  define start where "start = (case lastSuccessTime db mid of None \<Rightarrow> 0 | Some t \<Rightarrow> t)"
  define first where "first = firstFailureAfter db mid start"
  define T where "T = (case first of None \<Rightarrow> STATUS_TEXT_UNKNOWN | Some t \<Rightarrow> formatDateTime env (Some t))"
  define D where "D = (case first of None \<Rightarrow> 0 | Some t \<Rightarrow> (env_now env - t) div 60000)"
  have st': "st' = emit env LOG_DOWN_FAILED monitor mid ?d 0 st"
    using b em by (rule downBranch_emitted)
  have dur: "(case first of None \<Rightarrow> 0 | Some t \<Rightarrow> minutesBetween (env_now env) t) = D"
    by (simp add: D_def minutesBetween_div split: option.splits)
  have f1: "statusCode ?d = 0"
    "failureCount ?d = Some (int (length (failuresSince db mid start)))"
    "firstFailureTime ?d = Some T"
    by (simp_all add: aggregatedData_def baseData_def Let_def T_def first_def start_def
        downRowsAfter_failuresSince)
  have f2: "failureDuration ?d = Some D"
    using dur by (simp add: aggregatedData_def Let_def first_def start_def)
  have f3: "nd_message ?d = MSG_FAILED_1 @ show_int (int (length (failuresSince db mid start))) @ MSG_FAILED_2
            @ T @ MSG_FAILED_3 @ show_int D @ MSG_FAILED_4 @ [CHR 0x0A]
            @ withAddress (nm_config monitor) (if msg = [] then MSG_NO_DETAILS else msg)"
    using dur by (simp add: aggregatedData_def baseData_def Let_def T_def first_def start_def
        downRowsAfter_failuresSince)
  have f4: "isFailureStart db mid start"
    unfolding start_def by (rule lastSuccessTime_isFailureStart)
  have f5: "if failuresSince db mid start = [] then T = STATUS_TEXT_UNKNOWN \<and> D = 0
           else \<exists>t. isEarliest (failuresSince db mid start) t
                  \<and> T = formatDateTime env (Some t) \<and> D = (env_now env - t) div 60000"
  proof (cases first)
    case None
    then have "failuresSince db mid start = []" by (simp add: first_def firstFailureAfter_None)
    then show ?thesis using None by (simp add: T_def D_def)
  next
    case (Some t)
    then have e: "isEarliest (failuresSince db mid start) t"
      by (simp add: first_def firstFailureAfter_isEarliest)
    have "failuresSince db mid start \<noteq> []"
      using Some firstFailureAfter_None [of db mid start] by (simp add: first_def)
    then show ?thesis using e Some by (auto simp: T_def D_def)
  qed
  show ?thesis
  proof (intro exI conjI)
    show "repo_monitors db mid = Some monitor" by (rule m)
    show "emitted st' = emitted st @ [?d]" by (simp add: st')
    show "statusCode ?d = 0" by (rule f1)
    show "isFailureStart db mid start" by (rule f4)
    show "failureCount ?d = Some (int (length (failuresSince db mid start)))" by (rule f1)
    show "if failuresSince db mid start = [] then T = STATUS_TEXT_UNKNOWN \<and> D = 0
           else \<exists>t. isEarliest (failuresSince db mid start) t
                  \<and> T = formatDateTime env (Some t) \<and> D = (env_now env - t) div 60000"
      by (rule f5)
    show "firstFailureTime ?d = Some T" by (rule f1)
    show "failureDuration ?d = Some D" by (rule f2)
    show "nd_message ?d = MSG_FAILED_1 @ show_int (int (length (failuresSince db mid start))) @ MSG_FAILED_2
            @ T @ MSG_FAILED_3 @ show_int D @ MSG_FAILED_4 @ [CHR 0x0A]
            @ withAddress (nm_config monitor) (if msg = [] then MSG_NO_DETAILS else msg)"
      by (rule f3)
    show "sent st' = sent st @ map (\<lambda>ch. (ch, ?d)) (filter ch_enabled (notificationBindings monitor))"
      by (simp add: st' emit_sent)
    show "notificationCache st' mid = Some \<lparr> c_time = env_now env, c_status = 0 \<rparr>"
      by (simp add: st')
  qed
qed

lemma scenario_repeat_emitted:
  "sendStatusChangeNotifications scenario_env scenario_repo ''m1'' 0 ''HTTP 500'' None scenario_engine =
     Inr (emit scenario_env LOG_DOWN_FAILED scenario_monitor ''m1''
            (aggregatedData scenario_env scenario_repo ''m1'' (baseData scenario_env scenario_monitor 0 ''HTTP 500''))
            0 scenario_engine)"
proof -
  have m: "repo_monitors scenario_repo ''m1'' = Some scenario_monitor"
    by (simp add: scenario_repo_def)
  have b: "notificationBindings scenario_monitor \<noteq> []" "resendInterval scenario_monitor = 2"
    by (simp_all add: scenario_monitor_def)
  have c: "notificationCache scenario_engine ''m1'' = Some \<lparr> c_time = 1704067200010, c_status = 0 \<rparr>"
    by (simp add: scenario_engine_def)
  have q: "queryFails scenario_env = (\<lambda>q. None)" by (simp add: scenario_env_def)
  have d: "downBranch scenario_env scenario_repo ''m1'' scenario_monitor
             (baseData scenario_env scenario_monitor 0 ''HTTP 500'') scenario_engine =
           aggregate scenario_env scenario_repo ''m1'' scenario_monitor
             (baseData scenario_env scenario_monitor 0 ''HTTP 500'') scenario_engine"
    using scenario_rows_since by (simp add: downBranch_def Let_def b c q)
  show ?thesis
    by (simp add: sendStatusChangeNotifications_def notifyBody_def m b q d
        aggregate_no_query_failure [OF q] Let_def)
qed

lemma outage_emitted:
  "sendStatusChangeNotifications outage_env outage_repo ''m1'' 0 ''HTTP 500'' None fresh_engine =
     Inr (emit outage_env LOG_DOWN_FAILED scenario_monitor ''m1''
            (aggregatedData outage_env outage_repo ''m1'' (baseData outage_env scenario_monitor 0 ''HTTP 500''))
            0 fresh_engine)"
proof -
  have m: "repo_monitors outage_repo ''m1'' = Some scenario_monitor"
    by (simp add: outage_repo_def)
  have b: "notificationBindings scenario_monitor \<noteq> []" "resendInterval scenario_monitor = 2"
    by (simp_all add: scenario_monitor_def)
  have c: "notificationCache fresh_engine ''m1'' = None" by (simp add: fresh_engine_def)
  have q: "queryFails outage_env = (\<lambda>q. None)" by (simp add: outage_env_def)
  have d: "downBranch outage_env outage_repo ''m1'' scenario_monitor
             (baseData outage_env scenario_monitor 0 ''HTTP 500'') fresh_engine =
           aggregate outage_env outage_repo ''m1'' scenario_monitor
             (baseData outage_env scenario_monitor 0 ''HTTP 500'') fresh_engine"
    by (simp add: downBranch_def Let_def b c)
  show ?thesis
    by (simp add: sendStatusChangeNotifications_def notifyBody_def m b q d
        aggregate_no_query_failure [OF q] Let_def)
qed

lemma outage_start: "isFailureStart outage_repo ''m1'' start \<longleftrightarrow> start = 1704067200000"
  by (auto simp: isFailureStart_def outage_repo_def scenario_row_def)

lemma outage_failures:
  "map row_timestamp (failuresSince outage_repo ''m1'' 1704067200000) = [1704067205000, 1704067265000]"
  by (simp add: failuresSince_def outage_repo_def scenario_row_def)

theorem C5_aggregated_down_witness:
  "\<exists>st'. sendStatusChangeNotifications outage_env outage_repo ''m1'' 0 ''HTTP 500'' None fresh_engine
            = Inr st'
     \<and> map failureCount (emitted st') = [Some 2]
     \<and> map firstFailureTime (emitted st') = [Some ''2024-01-01 00:00:05'']
     \<and> map failureDuration (emitted st') = [Some 2]
     \<and> notificationCache st' ''m1'' = Some \<lparr> c_time = 1704067330010, c_status = 0 \<rparr>"
proof -
  let ?st' = "emit outage_env LOG_DOWN_FAILED scenario_monitor ''m1''
            (aggregatedData outage_env outage_repo ''m1'' (baseData outage_env scenario_monitor 0 ''HTTP 500''))
            0 fresh_engine"
  have em: "emitted ?st' \<noteq> emitted fresh_engine" by simp
  from C5_aggregated_down [OF outage_emitted em] obtain monitor d start T D where
    m: "repo_monitors outage_repo ''m1'' = Some monitor"
    and e: "emitted ?st' = emitted fresh_engine @ [d]"
    and s: "isFailureStart outage_repo ''m1'' start"
    and n: "failureCount d = Some (int (length (failuresSince outage_repo ''m1'' start)))"
    and f: "if failuresSince outage_repo ''m1'' start = [] then T = STATUS_TEXT_UNKNOWN \<and> D = 0
           else \<exists>t. isEarliest (failuresSince outage_repo ''m1'' start) t
                  \<and> T = formatDateTime outage_env (Some t) \<and> D = (env_now outage_env - t) div 60000"
    and t: "firstFailureTime d = Some T" "failureDuration d = Some D"
    and c: "notificationCache ?st' ''m1'' = Some \<lparr> c_time = env_now outage_env, c_status = 0 \<rparr>"
    by blast
  from s have start: "start = 1704067200000" by (simp add: outage_start)
  have len: "length (failuresSince outage_repo ''m1'' 1704067200000) = 2"
    using outage_failures by (metis length_map length_Cons list.size(3) numeral_2_eq_2)
  have ne: "failuresSince outage_repo ''m1'' 1704067200000 \<noteq> []" using len by auto
  from f ne obtain t0 where
    t0: "isEarliest (failuresSince outage_repo ''m1'' 1704067200000) t0"
    and T: "T = formatDateTime outage_env (Some t0)"
    and D: "D = (env_now outage_env - t0) div 60000"
    by (auto simp: start)
  have "t0 \<in> set (map row_timestamp (failuresSince outage_repo ''m1'' 1704067200000))"
    "\<forall>x \<in> set (map row_timestamp (failuresSince outage_repo ''m1'' 1704067200000)). t0 \<le> x"
    using t0 by (auto simp: isEarliest_def)
  then have "t0 = 1704067205000" unfolding outage_failures by auto
  then have "T = ''2024-01-01 00:00:05''" "D = 2"
    using T D by (simp_all add: outage_env_def)
  then show ?thesis
    using outage_emitted e n t c len
    by (auto simp: start fresh_engine_def outage_env_def)
qed

text \<open>
  The rule for repeats, where a call for DOWN reaches it (no previous status passed, or one
  that is not DOWN): with a positive \<open>resendInterval\<close> and a last notification that was
  DOWN, it emits exactly when the DOWN rows later than that notification number at least
  \<open>resendInterval\<close>; with \<open>resendInterval\<close> 0 it does not emit.
\<close>

lemma notifyBody_reaches_down:
  assumes "queryFails env Q_findMonitor = None" "repo_monitors db mid = Some monitor"
    "notificationBindings monitor \<noteq> []" "prev \<noteq> Some 0"
  shows "notifyBody env db mid 0 msg prev st = downBranch env db mid monitor (baseData env monitor 0 msg) st"
proof (cases prev)
  case None
  then show ?thesis using assms by (simp add: notifyBody_def Let_def)
next
  case (Some p)
  then have "realPrevStatus db mid prev \<noteq> Some 0" using assms(4) by (simp add: realPrevStatus_def)
  then show ?thesis using assms by (simp add: notifyBody_def Let_def)
qed

lemma down_repeat_rule:
  assumes q: "queryFails env = (\<lambda>q. None)"
    and m: "repo_monitors db mid = Some monitor" "notificationBindings monitor \<noteq> []"
    and c: "notificationCache st mid = Some l" "c_status l = 0"
    and p: "prev \<noteq> Some 0"
  shows "sendStatusChangeNotifications env db mid 0 msg prev st =
     Inr (if (if resendInterval monitor > 0
              then int (length (downRowsAfter db mid (c_time l))) < resendInterval monitor else True)
          then st
          else emit env LOG_DOWN_FAILED monitor mid
                 (aggregatedData env db mid (baseData env monitor 0 msg)) 0 st)"
proof -
  have f: "queryFails env Q_findMonitor = None" "queryFails env Q_countSince = None" by (simp_all add: q)
  have "notifyBody env db mid 0 msg prev st = downBranch env db mid monitor (baseData env monitor 0 msg) st"
    by (rule notifyBody_reaches_down [OF f(1) m p])
  also have "\<dots> = Inr (if (if resendInterval monitor > 0
              then int (length (downRowsAfter db mid (c_time l))) < resendInterval monitor else True)
          then st
          else emit env LOG_DOWN_FAILED monitor mid
                 (aggregatedData env db mid (baseData env monitor 0 msg)) 0 st)"
    by (simp add: downBranch_def Let_def c f aggregate_no_query_failure [OF q])
  finally show ?thesis by (simp add: sendStatusChangeNotifications_def)
qed

text \<open>
  C1 (as stated, refuted). In the scenario the last emitted notification was DOWN,
  \<open>resendInterval\<close> is 2 and two DOWN rows are later than the last notification, so the
  claim has the call emit a repeat. Called with the previous status DOWN, the call is
  stopped by the test for an unchanged status, which comes before the rule for repeats:
  the engine returns unchanged, nothing emitted, nothing sent.
\<close>

theorem C1_repeat_suppressed_in_down_run:
  "sendStatusChangeNotifications scenario_env scenario_repo ''m1'' 0 ''HTTP 500'' (Some 0) scenario_engine
     = Inr scenario_engine
   \<and> map_option resendInterval (repo_monitors scenario_repo ''m1'') = Some 2
   \<and> notificationCache scenario_engine ''m1'' = Some \<lparr> c_time = 1704067200010, c_status = 0 \<rparr>
   \<and> length (failuresSince scenario_repo ''m1'' 1704067200010) = 2"
proof -
  have "sendStatusChangeNotifications scenario_env scenario_repo ''m1'' 0 ''HTTP 500'' (Some 0) scenario_engine
      = Inr scenario_engine"
    by (rule no_transition_no_emit [where monitor = scenario_monitor])
       (simp_all add: scenario_env_def scenario_repo_def)
  moreover have "length (failuresSince scenario_repo ''m1'' 1704067200010) = 2"
    using scenario_rows_since by (simp add: downRowsAfter_failuresSince)
  ultimately show ?thesis
    by (simp add: scenario_repo_def scenario_monitor_def scenario_engine_def)
qed

text \<open>
  C1 (amended). For a monitor that exists and has a notification binding, when no query
  of the repository fails and the last emitted notification had status DOWN, a call for
  DOWN returns, and it emits a repeat notification if and only if the previous status
  passed is not DOWN (it is null or another status), \<open>resendInterval\<close> is positive, and the
  number of the monitor's DOWN history rows with a timestamp strictly later than that of
  the last notification is at least \<open>resendInterval\<close>. It then emits exactly one
  notification; otherwise the engine is left as it was. So with the previous status DOWN,
  or with \<open>resendInterval\<close> 0, no repeat is emitted.
\<close>

theorem C1_repeat_rule:
  assumes q: "queryFails env = (\<lambda>q. None)"
    and m: "repo_monitors db mid = Some monitor" "notificationBindings monitor \<noteq> []"
    and c: "notificationCache st mid = Some l" "c_status l = 0"
  shows "\<exists>st'. sendStatusChangeNotifications env db mid 0 msg prev st = Inr st'
       \<and> (emitted st' \<noteq> emitted st \<longleftrightarrow>
            prev \<noteq> Some 0 \<and> 0 < resendInterval monitor
            \<and> resendInterval monitor \<le> int (length (failuresSince db mid (c_time l))))
       \<and> (emitted st' \<noteq> emitted st \<longrightarrow> length (emitted st') = length (emitted st) + 1)
       \<and> (emitted st' = emitted st \<longrightarrow> st' = st)"
proof (cases "prev = Some 0")
  case True
  have "sendStatusChangeNotifications env db mid 0 msg (Some 0) st = Inr st"
    by (rule no_transition_no_emit [OF _ m(1)]) (simp add: q)
  then show ?thesis using True by simp
next
  case False
  let ?quiet = "if resendInterval monitor > 0
              then int (length (downRowsAfter db mid (c_time l))) < resendInterval monitor else True"
  let ?d = "aggregatedData env db mid (baseData env monitor 0 msg)"
  have r: "sendStatusChangeNotifications env db mid 0 msg prev st =
     Inr (if ?quiet then st else emit env LOG_DOWN_FAILED monitor mid ?d 0 st)"
    by (rule down_repeat_rule [OF q m c False])
  show ?thesis
  proof (cases ?quiet)
    case True
    then have "sendStatusChangeNotifications env db mid 0 msg prev st = Inr st" using r by simp
    moreover have "\<not> (0 < resendInterval monitor
            \<and> resendInterval monitor \<le> int (length (failuresSince db mid (c_time l))))"
      using True by (simp add: downRowsAfter_failuresSince split: if_splits)
    ultimately show ?thesis by simp
  next
    case loud: False
    then have "sendStatusChangeNotifications env db mid 0 msg prev st =
        Inr (emit env LOG_DOWN_FAILED monitor mid ?d 0 st)" using r by simp
    moreover have "0 < resendInterval monitor
            \<and> resendInterval monitor \<le> int (length (failuresSince db mid (c_time l)))"
      using loud by (simp add: downRowsAfter_failuresSince split: if_splits)
    ultimately show ?thesis using False by simp
  qed
qed

theorem C1_repeat_rule_witness:
  "\<exists>st'. sendStatusChangeNotifications scenario_env scenario_repo ''m1'' 0 ''HTTP 500'' None scenario_engine
            = Inr st'
     \<and> length (emitted st') = 1
     \<and> length (failuresSince scenario_repo ''m1'' 1704067200010) = 2
     \<and> map_option resendInterval (repo_monitors scenario_repo ''m1'') = Some 2"
proof -
  have n: "length (failuresSince scenario_repo ''m1'' 1704067200010) = 2"
    using scenario_rows_since by (simp add: downRowsAfter_failuresSince)
  have r: "resendInterval scenario_monitor = 2" by (simp add: scenario_monitor_def)
  have e: "emitted scenario_engine = []" by (simp add: scenario_engine_def)
  from C1_repeat_rule [where env = scenario_env and db = scenario_repo and mid = "''m1''"
      and monitor = scenario_monitor and st = scenario_engine
      and l = "\<lparr> c_time = 1704067200010, c_status = 0 \<rparr>" and msg = "''HTTP 500''" and prev = None]
  obtain st' where
    run: "sendStatusChangeNotifications scenario_env scenario_repo ''m1'' 0 ''HTTP 500'' None scenario_engine
            = Inr st'"
    and iff: "emitted st' \<noteq> emitted scenario_engine \<longleftrightarrow>
            0 < resendInterval scenario_monitor
            \<and> resendInterval scenario_monitor \<le> int (length (failuresSince scenario_repo ''m1'' 1704067200010))"
    and one: "emitted st' \<noteq> emitted scenario_engine \<longrightarrow> length (emitted st') = length (emitted scenario_engine) + 1"
    by (auto simp: scenario_env_def scenario_repo_def scenario_monitor_def scenario_engine_def)
  from iff n r have "emitted st' \<noteq> emitted scenario_engine" by simp
  with one e have "length (emitted st') = 1" by simp
  with run n r show ?thesis by (auto simp: scenario_repo_def)
qed

lemma recovery_run:
  assumes q: "queryFails env Q_findMonitor = None"
    and m: "repo_monitors db mid = Some monitor" "notificationBindings monitor \<noteq> []"
    and rp: "realPrevStatus db mid prev = Some 0"
    and nn: "\<not> isNewMonitor db mid"
  shows "sendStatusChangeNotifications env db mid 1 msg prev st =
     Inr (emit env LOG_RECOVERY_FAILED monitor mid
            (recoveryData env (notificationCache st mid) (baseData env monitor 1 msg)) 1 st)"
  using assms by (simp add: sendStatusChangeNotifications_def notifyBody_def Let_def)

lemma recovery_history2:
  "statusHistory2 recovery_repo ''m1'' =
     [scenario_row ''00007xddd'' 1 1704067215000, scenario_row ''00005accc'' 0 1704067210000]"
  by (simp add: statusHistory2_def monitorRows_def recovery_repo_def scenario_repo_def scenario_row_def
      sort_key_def)

lemma recovery_scenario_run:
  "sendStatusChangeNotifications (recovery_env now) recovery_repo ''m1'' 1 ''OK'' (Some 0) scenario_engine =
     Inr (emit (recovery_env now) LOG_RECOVERY_FAILED scenario_monitor ''m1''
            (recoveryData (recovery_env now) (Some \<lparr> c_time = 1704067200010, c_status = 0 \<rparr>)
               (baseData (recovery_env now) scenario_monitor 1 ''OK'')) 1 scenario_engine)"
proof -
  have "sendStatusChangeNotifications (recovery_env now) recovery_repo ''m1'' 1 ''OK'' (Some 0) scenario_engine =
     Inr (emit (recovery_env now) LOG_RECOVERY_FAILED scenario_monitor ''m1''
            (recoveryData (recovery_env now) (notificationCache scenario_engine ''m1'')
               (baseData (recovery_env now) scenario_monitor 1 ''OK'')) 1 scenario_engine)"
  proof (rule recovery_run)
    show "queryFails (recovery_env now) Q_findMonitor = None"
      by (simp add: recovery_env_def scenario_env_def)
    show "repo_monitors recovery_repo ''m1'' = Some scenario_monitor"
      by (simp add: recovery_repo_def scenario_repo_def)
    show "notificationBindings scenario_monitor \<noteq> []" by (simp add: scenario_monitor_def)
    show "realPrevStatus recovery_repo ''m1'' (Some 0) = Some 0" by (simp add: realPrevStatus_def)
    show "\<not> isNewMonitor recovery_repo ''m1''" by (simp add: isNewMonitor_def recovery_history2)
  qed
  then show ?thesis by (simp add: scenario_engine_def)
qed

lemma recoverDuration_div:
  "recoverDuration env lastNotification =
     (case lastNotification of
        None \<Rightarrow> 0
      | Some l \<Rightarrow> if c_status l = 0 then (env_now env - c_time l) div 60000 else 0)"
  by (simp add: recoverDuration_def minutesBetween_div split: option.splits)

text \<open>
  C6 (as stated, refuted). The recovery of the scenario comes 15 seconds after the last
  notification, so the outage lasted less than a minute and D = 0. The message emitted is
  "monitoring has recovered.", a line feed and the message with its address line: the
  sentence "the failure lasted about 0 minutes." is not in it.
\<close>

theorem C6_sub_minute_recovery_message:
  "map_sum id (map nd_message \<circ> emitted)
     (sendStatusChangeNotifications (recovery_env 1704067215010) recovery_repo ''m1'' 1 ''OK'' (Some 0)
        scenario_engine)
     = Inr [MSG_RECOVERED @ [CHR 0x0A] @ MSG_ADDRESS @ ''http://shop.local'' @ [CHR 0x0A] @ ''OK'']
   \<and> take (length (MSG_RECOVERED @ MSG_LASTED @ ''0'' @ MSG_MINUTES))
        (MSG_RECOVERED @ [CHR 0x0A] @ MSG_ADDRESS @ ''http://shop.local'' @ [CHR 0x0A] @ ''OK'')
       \<noteq> MSG_RECOVERED @ MSG_LASTED @ ''0'' @ MSG_MINUTES"
proof
  show "map_sum id (map nd_message \<circ> emitted)
     (sendStatusChangeNotifications (recovery_env 1704067215010) recovery_repo ''m1'' 1 ''OK'' (Some 0)
        scenario_engine)
     = Inr [MSG_RECOVERED @ [CHR 0x0A] @ MSG_ADDRESS @ ''http://shop.local'' @ [CHR 0x0A] @ ''OK'']"
    unfolding recovery_scenario_run
    by (simp add: recoveryData_def recoverDuration_div baseData_def withAddress_def given_def
        scenario_monitor_def recovery_env_def scenario_env_def scenario_engine_def)
  show "take (length (MSG_RECOVERED @ MSG_LASTED @ ''0'' @ MSG_MINUTES))
        (MSG_RECOVERED @ [CHR 0x0A] @ MSG_ADDRESS @ ''http://shop.local'' @ [CHR 0x0A] @ ''OK'')
       \<noteq> MSG_RECOVERED @ MSG_LASTED @ ''0'' @ MSG_MINUTES"
    by (simp add: MSG_RECOVERED_def MSG_LASTED_def MSG_MINUTES_def MSG_ADDRESS_def)
qed

text \<open>
  C6 (amended). A call for UP whose resolved previous status is DOWN, for a monitor that
  is not new, emits (the monitor being found with an enabled binding). With D the whole
  minutes from the last notification to now if that notification was DOWN, and 0
  otherwise, the message is "monitoring has recovered.", then "the failure lasted about D
  minutes." only if D > 0, then a line feed and the message with its address line; the
  cache then holds (now, UP).
\<close>

theorem C6_recovery_notification:
  fixes st :: engine
  assumes q: "queryFails env Q_findMonitor = None"
    and m: "repo_monitors db mid = Some monitor" "notificationBindings monitor \<noteq> []"
    and rp: "realPrevStatus db mid prev = Some 0"
    and nn: "\<not> isNewMonitor db mid"
  defines "D \<equiv> (case notificationCache st mid of
                   None \<Rightarrow> 0
                 | Some l \<Rightarrow> if c_status l = 0 then (env_now env - c_time l) div 60000 else 0)"
  shows "\<exists>st' d. sendStatusChangeNotifications env db mid 1 msg prev st = Inr st'
       \<and> emitted st' = emitted st @ [d]
       \<and> statusCode d = 1
       \<and> nd_message d = MSG_RECOVERED @ (if D > 0 then MSG_LASTED @ show_int D @ MSG_MINUTES else [])
            @ [CHR 0x0A] @ withAddress (nm_config monitor) (if msg = [] then MSG_NO_DETAILS else msg)
       \<and> sent st' = sent st @ map (\<lambda>ch. (ch, d)) (filter ch_enabled (notificationBindings monitor))
       \<and> notificationCache st' mid = Some \<lparr> c_time = env_now env, c_status = 1 \<rparr>"
proof -
  let ?d = "recoveryData env (notificationCache st mid) (baseData env monitor 1 msg)"
  let ?st' = "emit env LOG_RECOVERY_FAILED monitor mid ?d 1 st"
  have D: "recoverDuration env (notificationCache st mid) = D"
    by (simp add: recoverDuration_div D_def)
  show ?thesis
  proof (intro exI conjI)
    show "sendStatusChangeNotifications env db mid 1 msg prev st = Inr ?st'"
      by (rule recovery_run [OF q m rp nn])
    show "emitted ?st' = emitted st @ [?d]" by simp
    show "statusCode ?d = 1" by (simp add: recoveryData_def baseData_def)
    show "nd_message ?d = MSG_RECOVERED @ (if D > 0 then MSG_LASTED @ show_int D @ MSG_MINUTES else [])
            @ [CHR 0x0A] @ withAddress (nm_config monitor) (if msg = [] then MSG_NO_DETAILS else msg)"
      by (simp add: recoveryData_def baseData_def D)
    show "sent ?st' = sent st @ map (\<lambda>ch. (ch, ?d)) (filter ch_enabled (notificationBindings monitor))"
      by (rule emit_sent)
    show "notificationCache ?st' mid = Some \<lparr> c_time = env_now env, c_status = 1 \<rparr>" by simp
  qed
qed

theorem C6_recovery_notification_witness:
  "\<exists>st' d. sendStatusChangeNotifications (recovery_env 1704067335010) recovery_repo ''m1'' 1 ''OK'' (Some 0)
              scenario_engine = Inr st'
     \<and> emitted st' = [d]
     \<and> nd_message d = MSG_RECOVERED @ MSG_LASTED @ ''2'' @ MSG_MINUTES @ [CHR 0x0A]
          @ MSG_ADDRESS @ ''http://shop.local'' @ [CHR 0x0A] @ ''OK''
     \<and> notificationCache st' ''m1'' = Some \<lparr> c_time = 1704067335010, c_status = 1 \<rparr>"
proof -
  have q: "queryFails (recovery_env 1704067335010) Q_findMonitor = None"
    by (simp add: recovery_env_def scenario_env_def)
  have m: "repo_monitors recovery_repo ''m1'' = Some scenario_monitor"
    "notificationBindings scenario_monitor \<noteq> []"
    by (simp_all add: recovery_repo_def scenario_repo_def scenario_monitor_def)
  have rp: "realPrevStatus recovery_repo ''m1'' (Some 0) = Some 0" by (simp add: realPrevStatus_def)
  have nn: "\<not> isNewMonitor recovery_repo ''m1''" by (simp add: isNewMonitor_def recovery_history2)
  from C6_recovery_notification [OF q m rp nn, where st = scenario_engine and msg = "''OK''"]
  obtain st' d where
    "sendStatusChangeNotifications (recovery_env 1704067335010) recovery_repo ''m1'' 1 ''OK'' (Some 0)
       scenario_engine = Inr st'"
    "emitted st' = emitted scenario_engine @ [d]"
    "nd_message d = MSG_RECOVERED @ MSG_LASTED @ show_int 2 @ MSG_MINUTES @ [CHR 0x0A]
       @ withAddress (nm_config scenario_monitor) ''OK''"
    "notificationCache st' ''m1'' = Some \<lparr> c_time = env_now (recovery_env 1704067335010), c_status = 1 \<rparr>"
    by (auto simp: scenario_engine_def recovery_env_def scenario_env_def)
  then show ?thesis
    by (auto simp: scenario_engine_def recovery_env_def scenario_env_def scenario_monitor_def
        withAddress_def given_def show_int_digit digit_char_values)
qed

end
